theory Spec2Isabelle
  imports Complex_Main "HOL-Library.Multiset"
begin

section \<open>Vectors, rotations and spatial vectors\<close>

text \<open>
  The source computes with \<^verbatim>\<open>Real\<close> (a C++ double), \<^verbatim>\<open>Vec3\<close>, \<^verbatim>\<open>Rotation\<close>,
  \<^verbatim>\<open>Transform\<close> and \<^verbatim>\<open>SpatialVec\<close>. Two number models are used.

  The first, in this section, takes \<^verbatim>\<open>Real\<close> to be the mathematical reals: rounding,
  overflow, underflow, infinities and not-a-number values are outside it. It is the model
  of the theorems on stage and value checks, on what the hooks leave unchanged, on the
  sums of contributions (whose proof needs addition to be associative, which it is not
  once a sum can overflow) and on the formulas of the spring at a positive length and of
  gravity. In it \<open>a / 0\<close> is \<open>0\<close> and \<open>vnorm\<close> is the exact Euclidean norm, so it says
  nothing true of the program where a divisor is zero or where a norm leaves the range
  of a double.

  The second, in the section on doubles below, has infinities, not-a-number values and
  the range of a double. It is the model of the theorems on coincident stations and on
  the cached gravity direction, which depend on exactly those.
\<close>

type_synonym Real = real

datatype Vec3 = Vec3 Real Real Real

fun vadd :: "Vec3 \<Rightarrow> Vec3 \<Rightarrow> Vec3" where
  "vadd (Vec3 a b c) (Vec3 d e f) = Vec3 (a + d) (b + e) (c + f)"

fun vsub :: "Vec3 \<Rightarrow> Vec3 \<Rightarrow> Vec3" where
  "vsub (Vec3 a b c) (Vec3 d e f) = Vec3 (a - d) (b - e) (c - f)"

fun vneg :: "Vec3 \<Rightarrow> Vec3" where
  "vneg (Vec3 a b c) = Vec3 (- a) (- b) (- c)"

text \<open>Scalar times vector (\<^verbatim>\<open>r * v\<close>, \<^verbatim>\<open>v * r\<close>) and vector over scalar (\<^verbatim>\<open>v / r\<close>).\<close>

fun vscale :: "Real \<Rightarrow> Vec3 \<Rightarrow> Vec3" where
  "vscale r (Vec3 a b c) = Vec3 (r * a) (r * b) (r * c)"

fun vdiv :: "Vec3 \<Rightarrow> Real \<Rightarrow> Vec3" where
  "vdiv (Vec3 a b c) r = Vec3 (a / r) (b / r) (c / r)"

text \<open>The dot product \<^verbatim>\<open>~a * b\<close>, the cross product \<^verbatim>\<open>a % b\<close> and \<^verbatim>\<open>v.norm()\<close>.\<close>

fun dot :: "Vec3 \<Rightarrow> Vec3 \<Rightarrow> Real" where
  "dot (Vec3 a b c) (Vec3 d e f) = a * d + b * e + c * f"

fun cross :: "Vec3 \<Rightarrow> Vec3 \<Rightarrow> Vec3" where
  "cross (Vec3 a b c) (Vec3 d e f) = Vec3 (b * f - c * e) (c * d - a * f) (a * e - b * d)"

definition vnorm :: "Vec3 \<Rightarrow> Real" where
  "vnorm v = sqrt (dot v v)"

text \<open>A rotation is a 3 by 3 matrix, given by its rows; \<^verbatim>\<open>R * v\<close> is the matrix-vector product.\<close>

datatype Rotation = Rotation Vec3 Vec3 Vec3

fun rot_apply :: "Rotation \<Rightarrow> Vec3 \<Rightarrow> Vec3" where
  "rot_apply (Rotation r1 r2 r3) v = Vec3 (dot r1 v) (dot r2 v) (dot r3 v)"

record Transform =
  X_R :: Rotation
  X_T :: Vec3

text \<open>A spatial vector is a pair (torque, force); \<^verbatim>\<open>+=\<close> and \<^verbatim>\<open>-=\<close> work on both parts.\<close>

datatype SpatialVec = SpatialVec Vec3 Vec3

fun sv_add :: "SpatialVec \<Rightarrow> SpatialVec \<Rightarrow> SpatialVec" where
  "sv_add (SpatialVec t f) (SpatialVec t' f') = SpatialVec (vadd t t') (vadd f f')"

fun sv_sub :: "SpatialVec \<Rightarrow> SpatialVec \<Rightarrow> SpatialVec" where
  "sv_sub (SpatialVec t f) (SpatialVec t' f') = SpatialVec (vsub t t') (vsub f f')"

section \<open>Stages and exceptions\<close>

text \<open>
  Modelled from the spec: the declaration of \<^verbatim>\<open>Stage\<close> is not part of the source file.
  The spec lists the ladder as Allocated, Built, Modeled, Parametrized, Timed, Configured,
  Moving, Dynamics, Reaction, totally ordered in that sequence.
\<close>

datatype Stage =
  Allocated | Built | Modeled | Parametrized | Timed | Configured | Moving | Dynamics | Reaction

fun stage_num :: "Stage \<Rightarrow> nat" where
  "stage_num Allocated = 0"
| "stage_num Built = 1"
| "stage_num Modeled = 2"
| "stage_num Parametrized = 3"
| "stage_num Timed = 4"
| "stage_num Configured = 5"
| "stage_num Moving = 6"
| "stage_num Dynamics = 7"
| "stage_num Reaction = 8"

instantiation Stage :: linorder
begin

definition less_eq_Stage :: "Stage \<Rightarrow> Stage \<Rightarrow> bool" where
  "less_eq_Stage a b = (stage_num a \<le> stage_num b)"

definition less_Stage :: "Stage \<Rightarrow> Stage \<Rightarrow> bool" where
  "less_Stage a b = (stage_num a < stage_num b)"

instance
proof
  fix a b :: Stage
  assume "a \<le> b" and "b \<le> a"
  then have "stage_num a = stage_num b"
    by (simp add: less_eq_Stage_def)
  then show "a = b"
    by (cases a; cases b; simp)
qed (auto simp: less_eq_Stage_def less_Stage_def)

end

text \<open>
  What a hook can raise. \<open>StageTooLow current target method\<close> and
  \<open>ValueWasNegative name value place\<close> are the exceptions of the two check macros.
  \<open>AssertionFailed\<close> is a failed \<^verbatim>\<open>assert\<close> (or a size mismatch in a vector operation),
  \<open>IndexOutOfRange\<close> an index outside the container it is applied to; the C++ aborts or
  is undefined there, and the model stops with the error.
\<close>

datatype Exception =
  StageTooLow Stage Stage string
| ValueWasNegative string Real string
| AssertionFailed
| IndexOutOfRange

text \<open>Sequencing: an exception ends the hook, as a throw does.\<close>

definition bindE :: "Exception + 'a \<Rightarrow> ('a \<Rightarrow> Exception + 'b) \<Rightarrow> Exception + 'b" where
  "bindE c k = (case c of Inl e \<Rightarrow> Inl e | Inr v \<Rightarrow> k v)"

text \<open>
  Modelled from the spec: the two check macros are defined outside the source file. A stage
  check fails when the current stage is below the target stage, and reports the hook with
  the required and the actual stage; a non-negativity check fails when the value is
  negative, and reports the field name and the calling location.
\<close>

definition SimTK_STAGECHECK_GE_ALWAYS :: "Stage \<Rightarrow> Stage \<Rightarrow> string \<Rightarrow> Exception + unit" where
  "SimTK_STAGECHECK_GE_ALWAYS currentStage targetStage methodNm =
     (if currentStage < targetStage then Inl (StageTooLow currentStage targetStage methodNm)
      else Inr ())"

definition SimTK_VALUECHECK_NONNEG_ALWAYS :: "Real \<Rightarrow> string \<Rightarrow> string \<Rightarrow> Exception + unit" where
  "SimTK_VALUECHECK_NONNEG_ALWAYS val valueName place =
     (if val < 0 then Inl (ValueWasNegative valueName val place) else Inr ())"

section \<open>The state\<close>

text \<open>
  One matter subsystem as the hooks see it through its query methods: the counts, the
  kinematics and mass properties of each body, the particle masses and the generalized
  speeds \<open>u\<close>. The queries are indexed by the integer the caller passes.
\<close>

record MatterSubsystem =
  getNBodies :: nat
  getNParticles :: nat
  getNMobilities :: nat
  getBodyConfiguration :: "int \<Rightarrow> Transform"
  getBodyMass :: "int \<Rightarrow> Real"
  getBodyCenterOfMass :: "int \<Rightarrow> Vec3"
  getParticleMasses :: "nat \<Rightarrow> Real"
  getU :: "Real list"

text \<open>The state entries of the spring: its parameters and its two cache entries.\<close>

record SpringParameters =
  p_stiffness :: Real
  p_naturalLength :: Real
  p_gravity :: Vec3
  p_damping :: Real

record ConfigurationCache =
  cc_station1_G :: Vec3
  cc_station2_G :: Vec3
  cc_v_G :: Vec3
  cc_x :: Real
  cc_fscalar :: Real
  cc_pe :: Real

record DynamicsCache =
  dc_f1_G :: Vec3

text \<open>The state entries of uniform gravity. \<open>pc_gDirection\<close> is a \<^verbatim>\<open>UnitVec3\<close> built
  with the "already normalized" flag, which stores the vector it is given.\<close>

record GravityParameters =
  gp_gravity :: Vec3
  gp_zeroHeight :: Real
  gp_enabled :: bool

record ParameterCache =
  pc_gDirection :: Vec3
  pc_gMagnitude :: Real

text \<open>
  The state with the multibody system's data that the hooks reach through it: the realized
  stage, the matter subsystems, the force accumulators (one vector of each kind per matter
  subsystem, and one potential energy), and the variables and cache entries of the force
  subsystems, addressed by the owning subsystem's index.
\<close>

record State =
  getStage :: Stage
  matterSubsystems :: "MatterSubsystem list"
  rigidBodyForces :: "SpatialVec list list"
  particleForces :: "Vec3 list list"
  mobilityForces :: "Real list list"
  potentialEnergy :: Real
  springParameters :: "nat \<Rightarrow> SpringParameters"
  springConfigurationCache :: "nat \<Rightarrow> ConfigurationCache"
  springDynamicsCache :: "nat \<Rightarrow> DynamicsCache"
  gravityParameters :: "nat \<Rightarrow> GravityParameters"
  gravityParameterCache :: "nat \<Rightarrow> ParameterCache"

text \<open>Element \<open>i\<close> of a container, or the error when there is none.\<close>

definition element_at :: "'a list \<Rightarrow> nat \<Rightarrow> Exception + 'a" where
  "element_at xs i = (if i < length xs then Inr (xs ! i) else Inl IndexOutOfRange)"

definition getMatterSubsystem :: "State \<Rightarrow> nat \<Rightarrow> Exception + MatterSubsystem" where
  "getMatterSubsystem s i = element_at (matterSubsystems s) i"

definition getNMatterSubsystems :: "State \<Rightarrow> nat" where
  "getNMatterSubsystems s = length (matterSubsystems s)"

text \<open>\<^verbatim>\<open>v[i]\<close> with an \<^verbatim>\<open>int\<close> index, checked against the vector's size.\<close>

definition int_index :: "'a list \<Rightarrow> int \<Rightarrow> Exception + nat" where
  "int_index xs i = (if 0 \<le> i \<and> i < int (length xs) then Inr (nat i) else Inl IndexOutOfRange)"

text \<open>\<^verbatim>\<open>a -= r * b\<close> on vectors of reals; the sizes have to agree.\<close>

definition vector_sub_scaled :: "Real list \<Rightarrow> Real \<Rightarrow> Real list \<Rightarrow> Exception + Real list" where
  "vector_sub_scaled a r b =
     (if length a = length b then Inr (map2 (\<lambda>m u. m - r * u) a b) else Inl AssertionFailed)"

section \<open>The two-point spring\<close>

record TwoPointSpringSubsystemRep =
  spring_index :: nat
  body1 :: int
  body2 :: int
  station1 :: Vec3
  station2 :: Vec3
  spring_defaultParameters :: SpringParameters

definition getParameters :: "TwoPointSpringSubsystemRep \<Rightarrow> State \<Rightarrow> SpringParameters" where
  "getParameters rep s = springParameters s (spring_index rep)"

definition getConfigurationCache :: "TwoPointSpringSubsystemRep \<Rightarrow> State \<Rightarrow> ConfigurationCache" where
  "getConfigurationCache rep s = springConfigurationCache s (spring_index rep)"

definition updConfigurationCache :: "TwoPointSpringSubsystemRep \<Rightarrow> ConfigurationCache \<Rightarrow> State \<Rightarrow> State" where
  "updConfigurationCache rep cc s =
     s\<lparr>springConfigurationCache := (springConfigurationCache s)(spring_index rep := cc)\<rparr>"


definition updDynamicsCache :: "TwoPointSpringSubsystemRep \<Rightarrow> DynamicsCache \<Rightarrow> State \<Rightarrow> State" where
  "updDynamicsCache rep dc s =
     s\<lparr>springDynamicsCache := (springDynamicsCache s)(spring_index rep := dc)\<rparr>"

definition getDamping :: "TwoPointSpringSubsystemRep \<Rightarrow> State \<Rightarrow> Real" where
  "getDamping rep s = p_damping (getParameters rep s)"

definition getStiffness :: "TwoPointSpringSubsystemRep \<Rightarrow> State \<Rightarrow> Real" where
  "getStiffness rep s = p_stiffness (getParameters rep s)"

definition getNaturalLength :: "TwoPointSpringSubsystemRep \<Rightarrow> State \<Rightarrow> Real" where
  "getNaturalLength rep s = p_naturalLength (getParameters rep s)"

text \<open>\<^verbatim>\<open>realizeConstruction\<close> allocates the three state entries; the parameters start at
  the defaults and the cache entries hold nothing meaningful yet.\<close>

definition TwoPointSpring_realizeConstruction :: "TwoPointSpringSubsystemRep \<Rightarrow> State \<Rightarrow> Exception + State" where
  "TwoPointSpring_realizeConstruction rep s =
     Inr (s\<lparr>springParameters :=
             (springParameters s)(spring_index rep := spring_defaultParameters rep)\<rparr>)"

definition TwoPointSpring_realizeModeling :: "TwoPointSpringSubsystemRep \<Rightarrow> State \<Rightarrow> Exception + State" where
  "TwoPointSpring_realizeModeling rep s =
     bindE (SimTK_STAGECHECK_GE_ALWAYS (getStage s) Built ''TwoPointSpring::realizeModeling()'')
       (\<lambda>_. Inr s)"

definition TwoPointSpring_realizeParameters :: "TwoPointSpringSubsystemRep \<Rightarrow> State \<Rightarrow> Exception + State" where
  "TwoPointSpring_realizeParameters rep s =
     bindE (SimTK_STAGECHECK_GE_ALWAYS (getStage s) Modeled ''TwoPointSpring::realizeParameters()'')
       (\<lambda>_. bindE (SimTK_VALUECHECK_NONNEG_ALWAYS (getStiffness rep s) ''stiffness''
                    ''TwoPointSpring::realizeParameters()'')
       (\<lambda>_. bindE (SimTK_VALUECHECK_NONNEG_ALWAYS (getNaturalLength rep s) ''naturalLength''
                    ''TwoPointSpring::realizeParameters()'')
       (\<lambda>_. Inr s)))"

definition TwoPointSpring_realizeTime :: "TwoPointSpringSubsystemRep \<Rightarrow> State \<Rightarrow> Exception + State" where
  "TwoPointSpring_realizeTime rep s =
     bindE (SimTK_STAGECHECK_GE_ALWAYS (getStage s) Parametrized ''TwoPointSpring::realizeTime()'')
       (\<lambda>_. Inr s)"

definition TwoPointSpring_realizeConfiguration :: "TwoPointSpringSubsystemRep \<Rightarrow> State \<Rightarrow> Exception + State" where
  "TwoPointSpring_realizeConfiguration rep s =
     bindE (SimTK_STAGECHECK_GE_ALWAYS (getStage s) Timed ''TwoPointSpring::realizeConfiguration()'')
       (\<lambda>_. let p = getParameters rep s in
        bindE (getMatterSubsystem s 0)
       (\<lambda>matter.
          let X_GB1 = getBodyConfiguration matter (body1 rep);
              X_GB2 = getBodyConfiguration matter (body2 rep);
              s1_G = rot_apply (X_R X_GB1) (station1 rep);
              s2_G = rot_apply (X_R X_GB2) (station2 rep);
              p1_G = vadd (X_T X_GB1) s1_G;
              p2_G = vadd (X_T X_GB2) s2_G;
              v = vsub p2_G p1_G;
              x = vnorm v;
              stretch = x - p_naturalLength p;
              fscalar = p_stiffness p * stretch
          in Inr (updConfigurationCache rep
                   \<lparr>cc_station1_G = s1_G, cc_station2_G = s2_G, cc_v_G = v, cc_x = x,
                    cc_fscalar = fscalar, cc_pe = 0.5 * fscalar * stretch\<rparr> s)))"

definition TwoPointSpring_realizeMotion :: "TwoPointSpringSubsystemRep \<Rightarrow> State \<Rightarrow> Exception + State" where
  "TwoPointSpring_realizeMotion rep s =
     bindE (SimTK_STAGECHECK_GE_ALWAYS (getStage s) Configured ''TwoPointSpring::realizeMotion()'')
       (\<lambda>_. Inr s)"

text \<open>
  \<^verbatim>\<open>realizeDynamics\<close>: the force on station 1, the three buffers of matter subsystem 0
  and the potential energy, the three size assertions, then the updates in the source's
  order. The two body updates are sequential, so they add up when both stations are on
  one body.
\<close>

definition TwoPointSpring_realizeDynamics :: "TwoPointSpringSubsystemRep \<Rightarrow> State \<Rightarrow> Exception + State" where
  "TwoPointSpring_realizeDynamics rep s =
     bindE (SimTK_STAGECHECK_GE_ALWAYS (getStage s) Moving ''TwoPointSpring::realizeDynamics()'')
       (\<lambda>_. let cc = getConfigurationCache rep s;
                f1 = vscale (cc_fscalar cc / cc_x cc) (cc_v_G cc)
        in
        bindE (getMatterSubsystem s 0) (\<lambda>matter.
        bindE (element_at (rigidBodyForces s) 0) (\<lambda>rbf.
        bindE (element_at (particleForces s) 0) (\<lambda>pf.
        bindE (element_at (mobilityForces s) 0) (\<lambda>mf.
          if length rbf \<noteq> getNBodies matter \<or> length pf \<noteq> getNParticles matter
             \<or> length mf \<noteq> getNMobilities matter
          then Inl AssertionFailed
          else
        bindE (int_index rbf (body1 rep)) (\<lambda>b1.
          let rbf1 = rbf[b1 := sv_add (rbf ! b1) (SpatialVec (cross (cc_station1_G cc) f1) f1)] in
        bindE (int_index rbf1 (body2 rep)) (\<lambda>b2.
          let rbf2 = rbf1[b2 := sv_sub (rbf1 ! b2) (SpatialVec (cross (cc_station2_G cc) f1) f1)] in
        bindE (if getDamping rep s \<noteq> 0
               then vector_sub_scaled mf (getDamping rep s) (getU matter) else Inr mf) (\<lambda>mf'.
          Inr ((updDynamicsCache rep \<lparr>dc_f1_G = f1\<rparr> s)
                 \<lparr>rigidBodyForces := (rigidBodyForces s)[0 := rbf2],
                  mobilityForces := (mobilityForces s)[0 := mf'],
                  potentialEnergy := potentialEnergy s + cc_pe cc\<rparr>)))))))))"

definition TwoPointSpring_realizeReaction :: "TwoPointSpringSubsystemRep \<Rightarrow> State \<Rightarrow> Exception + State" where
  "TwoPointSpring_realizeReaction rep s =
     bindE (SimTK_STAGECHECK_GE_ALWAYS (getStage s) Dynamics ''TwoPointSpring::realizeReaction()'')
       (\<lambda>_. Inr s)"

section \<open>Uniform gravity\<close>

record UniformGravitySubsystemRep =
  gravity_index :: nat
  gravity_defaultParameters :: GravityParameters

definition getGravityParameters :: "UniformGravitySubsystemRep \<Rightarrow> State \<Rightarrow> GravityParameters" where
  "getGravityParameters rep s = gravityParameters s (gravity_index rep)"

definition getParameterCache :: "UniformGravitySubsystemRep \<Rightarrow> State \<Rightarrow> ParameterCache" where
  "getParameterCache rep s = gravityParameterCache s (gravity_index rep)"

definition updParameterCache :: "UniformGravitySubsystemRep \<Rightarrow> ParameterCache \<Rightarrow> State \<Rightarrow> State" where
  "updParameterCache rep pc s =
     s\<lparr>gravityParameterCache := (gravityParameterCache s)(gravity_index rep := pc)\<rparr>"

definition getGravity :: "UniformGravitySubsystemRep \<Rightarrow> State \<Rightarrow> Vec3" where
  "getGravity rep s = gp_gravity (getGravityParameters rep s)"

definition getZeroHeight :: "UniformGravitySubsystemRep \<Rightarrow> State \<Rightarrow> Real" where
  "getZeroHeight rep s = gp_zeroHeight (getGravityParameters rep s)"

definition isEnabled :: "UniformGravitySubsystemRep \<Rightarrow> State \<Rightarrow> bool" where
  "isEnabled rep s = gp_enabled (getGravityParameters rep s)"

definition getGravityMagnitude :: "UniformGravitySubsystemRep \<Rightarrow> State \<Rightarrow> Real" where
  "getGravityMagnitude rep s = pc_gMagnitude (getParameterCache rep s)"

definition getGravityDirection :: "UniformGravitySubsystemRep \<Rightarrow> State \<Rightarrow> Vec3" where
  "getGravityDirection rep s = pc_gDirection (getParameterCache rep s)"

definition UniformGravity_realizeConstruction :: "UniformGravitySubsystemRep \<Rightarrow> State \<Rightarrow> Exception + State" where
  "UniformGravity_realizeConstruction rep s =
     Inr (s\<lparr>gravityParameters :=
             (gravityParameters s)(gravity_index rep := gravity_defaultParameters rep)\<rparr>)"

definition UniformGravity_realizeParameters :: "UniformGravitySubsystemRep \<Rightarrow> State \<Rightarrow> Exception + State" where
  "UniformGravity_realizeParameters rep s =
     bindE (SimTK_STAGECHECK_GE_ALWAYS (getStage s) Modeled ''UniformGravity::realizeParameters()'')
       (\<lambda>_. let g = getGravity rep s;
                gMagnitude = vnorm g
        in Inr (updParameterCache rep
                 \<lparr>pc_gDirection = (if gMagnitude = 0 then Vec3 0 0 1 else vdiv g gMagnitude),
                  pc_gMagnitude = gMagnitude\<rparr> s))"

definition UniformGravity_realizeConfiguration :: "UniformGravitySubsystemRep \<Rightarrow> State \<Rightarrow> Exception + State" where
  "UniformGravity_realizeConfiguration rep s =
     bindE (SimTK_STAGECHECK_GE_ALWAYS (getStage s) Timed ''UniformGravity::realizeConfiguration()'')
       (\<lambda>_. Inr s)"

text \<open>The particle loop after \<open>n\<close> iterations: \<^verbatim>\<open>particleForces[i] += g * m[i]\<close> for
  \<open>i = 0, ..., n - 1\<close>.\<close>

fun particleLoop :: "Vec3 \<Rightarrow> (nat \<Rightarrow> Real) \<Rightarrow> nat \<Rightarrow> Vec3 list \<Rightarrow> Vec3 list" where
  "particleLoop g m 0 pf = pf"
| "particleLoop g m (Suc i) pf =
     (let pf' = particleLoop g m i pf in pf'[i := vadd (pf' ! i) (vscale (m i) g)])"

text \<open>One pass of the body loop's body, for body \<open>i\<close>: what it adds to the potential
  energy and to the body's slot.\<close>

definition bodyPotentialEnergy :: "Vec3 \<Rightarrow> Real \<Rightarrow> MatterSubsystem \<Rightarrow> nat \<Rightarrow> Real" where
  "bodyPotentialEnergy g gh0 matter i =
     (let m = getBodyMass matter (int i);
          com_B = getBodyCenterOfMass matter (int i);
          X_GB = getBodyConfiguration matter (int i);
          com_B_G = rot_apply (X_R X_GB) com_B;
          com_G = vadd (X_T X_GB) com_B_G
      in m * (dot g com_G - gh0))"

definition bodyGravityForce :: "Vec3 \<Rightarrow> MatterSubsystem \<Rightarrow> nat \<Rightarrow> SpatialVec" where
  "bodyGravityForce g matter i =
     (let m = getBodyMass matter (int i);
          com_B = getBodyCenterOfMass matter (int i);
          X_GB = getBodyConfiguration matter (int i);
          com_B_G = rot_apply (X_R X_GB) com_B
      in SpatialVec (cross com_B_G (vscale m g)) (vscale m g))"

text \<open>The body loop after \<open>n\<close> iterations, on the body forces and the potential energy.\<close>

fun bodyLoop :: "Vec3 \<Rightarrow> Real \<Rightarrow> MatterSubsystem \<Rightarrow> nat \<Rightarrow> SpatialVec list \<times> Real
    \<Rightarrow> SpatialVec list \<times> Real" where
  "bodyLoop g gh0 matter 0 acc = acc"
| "bodyLoop g gh0 matter (Suc i) acc =
     (let (rbf, pe) = bodyLoop g gh0 matter i acc
      in (rbf[i := sv_add (rbf ! i) (bodyGravityForce g matter i)],
          pe + bodyPotentialEnergy g gh0 matter i))"

text \<open>The body of the loop over the matter subsystems, for subsystem \<open>msub\<close>.\<close>

definition gravityOnSubsystem :: "Vec3 \<Rightarrow> Real \<Rightarrow> nat \<Rightarrow> State \<Rightarrow> Exception + State" where
  "gravityOnSubsystem g gh0 msub s =
     bindE (getMatterSubsystem s msub) (\<lambda>matter.
     bindE (element_at (rigidBodyForces s) msub) (\<lambda>rbf.
     bindE (element_at (particleForces s) msub) (\<lambda>pf.
       if length rbf \<noteq> getNBodies matter \<or> length pf \<noteq> getNParticles matter
       then Inl AssertionFailed
       else
         let pf' = (if getNParticles matter \<noteq> 0
                    then particleLoop g (getParticleMasses matter) (getNParticles matter) pf
                    else pf);
             (rbf', pe') = bodyLoop g gh0 matter (getNBodies matter) (rbf, potentialEnergy s)
         in Inr (s\<lparr>rigidBodyForces := (rigidBodyForces s)[msub := rbf'],
                   particleForces := (particleForces s)[msub := pf'],
                   potentialEnergy := pe'\<rparr>))))"

text \<open>The loop over the matter subsystems after \<open>n\<close> iterations.\<close>

fun matterLoop :: "Vec3 \<Rightarrow> Real \<Rightarrow> nat \<Rightarrow> State \<Rightarrow> Exception + State" where
  "matterLoop g gh0 0 s = Inr s"
| "matterLoop g gh0 (Suc msub) s =
     bindE (matterLoop g gh0 msub s) (gravityOnSubsystem g gh0 msub)"

definition UniformGravity_realizeDynamics :: "UniformGravitySubsystemRep \<Rightarrow> State \<Rightarrow> Exception + State" where
  "UniformGravity_realizeDynamics rep s =
     bindE (SimTK_STAGECHECK_GE_ALWAYS (getStage s) Moving ''UniformGravity::realizeDynamics()'')
       (\<lambda>_. if \<not> isEnabled rep s \<or> getGravityMagnitude rep s = 0 then Inr s
             else
               let g = getGravity rep s;
                   gh0 = getGravityMagnitude rep s * getZeroHeight rep s
               in matterLoop g gh0 (getNMatterSubsystems s) s)"

section \<open>The hooks of the two elements, and a Dynamics pass\<close>

text \<open>
  Every realize hook the two classes define, with the stage it realizes and the name it
  passes to its stage check. \<^verbatim>\<open>realizeConstruction\<close> makes no stage check and so has
  no such name.
\<close>

definition realizeHooks :: "TwoPointSpringSubsystemRep \<Rightarrow> UniformGravitySubsystemRep
    \<Rightarrow> ((State \<Rightarrow> Exception + State) \<times> Stage \<times> string) list" where
  "realizeHooks sp gr =
    [(TwoPointSpring_realizeConstruction sp, Built, []),
     (TwoPointSpring_realizeModeling sp, Modeled, ''TwoPointSpring::realizeModeling()''),
     (TwoPointSpring_realizeParameters sp, Parametrized, ''TwoPointSpring::realizeParameters()''),
     (TwoPointSpring_realizeTime sp, Timed, ''TwoPointSpring::realizeTime()''),
     (TwoPointSpring_realizeConfiguration sp, Configured, ''TwoPointSpring::realizeConfiguration()''),
     (TwoPointSpring_realizeMotion sp, Moving, ''TwoPointSpring::realizeMotion()''),
     (TwoPointSpring_realizeDynamics sp, Dynamics, ''TwoPointSpring::realizeDynamics()''),
     (TwoPointSpring_realizeReaction sp, Reaction, ''TwoPointSpring::realizeReaction()''),
     (UniformGravity_realizeConstruction gr, Built, []),
     (UniformGravity_realizeParameters gr, Parametrized, ''UniformGravity::realizeParameters()''),
     (UniformGravity_realizeConfiguration gr, Configured, ''UniformGravity::realizeConfiguration()''),
     (UniformGravity_realizeDynamics gr, Dynamics, ''UniformGravity::realizeDynamics()'')]"

text \<open>The stage before a stage on the ladder (the lowest stage has none below it).\<close>

fun predecessor :: "Stage \<Rightarrow> Stage" where
  "predecessor Allocated = Allocated"
| "predecessor Built = Allocated"
| "predecessor Modeled = Built"
| "predecessor Parametrized = Modeled"
| "predecessor Timed = Parametrized"
| "predecessor Configured = Timed"
| "predecessor Moving = Configured"
| "predecessor Dynamics = Moving"
| "predecessor Reaction = Dynamics"

fun reportsStageError :: "Exception + State \<Rightarrow> bool" where
  "reportsStageError (Inl (StageTooLow cur tgt nm)) = True"
| "reportsStageError r = False"

fun reportsValueError :: "Exception + State \<Rightarrow> bool" where
  "reportsValueError (Inl (ValueWasNegative nm v place)) = True"
| "reportsValueError r = False"

text \<open>A force element, and the virtual call of its Dynamics hook.\<close>

datatype ForceSubsystem =
  TwoPointSpring TwoPointSpringSubsystemRep
| UniformGravity UniformGravitySubsystemRep

fun realizeDynamics :: "ForceSubsystem \<Rightarrow> State \<Rightarrow> Exception + State" where
  "realizeDynamics (TwoPointSpring rep) s = TwoPointSpring_realizeDynamics rep s"
| "realizeDynamics (UniformGravity rep) s = UniformGravity_realizeDynamics rep s"

text \<open>Running the Dynamics hooks of a list of elements one after the other, in the
  order of the list.\<close>

fun realizeDynamicsPass :: "ForceSubsystem list \<Rightarrow> State \<Rightarrow> Exception + State" where
  "realizeDynamicsPass [] s = Inr s"
| "realizeDynamicsPass (e # es) s = bindE (realizeDynamics e s) (realizeDynamicsPass es)"

text \<open>
  The four shared accumulators of a state, their componentwise sum, the state with the
  accumulators zeroed (sizes kept), and the standalone contribution of an element: what
  its Dynamics hook leaves in accumulators that were zero.
\<close>

type_synonym Accumulators = "SpatialVec list list \<times> Vec3 list list \<times> Real list list \<times> Real"

definition accumulators :: "State \<Rightarrow> Accumulators" where
  "accumulators s = (rigidBodyForces s, particleForces s, mobilityForces s, potentialEnergy s)"

fun acc_add :: "Accumulators \<Rightarrow> Accumulators \<Rightarrow> Accumulators" where
  "acc_add (r, p, m, e) (r', p', m', e') =
     (map2 (map2 sv_add) r r', map2 (map2 vadd) p p', map2 (map2 (+)) m m', e + e')"

definition zeroed :: "State \<Rightarrow> State" where
  "zeroed s =
     s\<lparr>rigidBodyForces := map (map (\<lambda>_. SpatialVec (Vec3 0 0 0) (Vec3 0 0 0))) (rigidBodyForces s),
       particleForces := map (map (\<lambda>_. Vec3 0 0 0)) (particleForces s),
       mobilityForces := map (map (\<lambda>_. 0)) (mobilityForces s),
       potentialEnergy := 0\<rparr>"

definition contribution :: "ForceSubsystem \<Rightarrow> State \<Rightarrow> Accumulators" where
  "contribution e s =
     (case realizeDynamics e (zeroed s) of
        Inr s' \<Rightarrow> accumulators s'
      | Inl err \<Rightarrow> accumulators (zeroed s))"

text \<open>A force \<open>f\<close> applied at a station (given in the ground frame, from the body
  origin) as a spatial force, and adding a spatial force to a body's slot.\<close>

definition spatialForce :: "Vec3 \<Rightarrow> Vec3 \<Rightarrow> SpatialVec" where
  "spatialForce station_G f = SpatialVec (cross station_G f) f"

definition addBodyForce :: "nat \<Rightarrow> SpatialVec \<Rightarrow> SpatialVec list \<Rightarrow> SpatialVec list" where
  "addBodyForce b F rbf = rbf[b := sv_add (rbf ! b) F]"

section \<open>Closed forms of the spring's hooks\<close>

text \<open>\<^verbatim>\<open>updDamping(s) = d\<close>: the state with the spring's damping variable set.\<close>

definition updDamping :: "TwoPointSpringSubsystemRep \<Rightarrow> Real \<Rightarrow> State \<Rightarrow> State" where
  "updDamping rep d s =
     s\<lparr>springParameters :=
         (springParameters s)(spring_index rep := (getParameters rep s)\<lparr>p_damping := d\<rparr>)\<rparr>"

text \<open>
  What the two computing hooks of the spring produce when they return, and when they
  return, written without the sequencing; the lemmas \<open>spring_configuration_Inr_iff\<close>
  and \<open>spring_dynamics_Inr_iff\<close> below prove them equal to the hooks.
\<close>

definition springConfigurationValue ::
    "TwoPointSpringSubsystemRep \<Rightarrow> SpringParameters \<Rightarrow> MatterSubsystem \<Rightarrow> ConfigurationCache" where
  "springConfigurationValue rep p matter =
     (let X_GB1 = getBodyConfiguration matter (body1 rep);
          X_GB2 = getBodyConfiguration matter (body2 rep);
          s1_G = rot_apply (X_R X_GB1) (station1 rep);
          s2_G = rot_apply (X_R X_GB2) (station2 rep);
          v = vsub (vadd (X_T X_GB2) s2_G) (vadd (X_T X_GB1) s1_G);
          stretch = vnorm v - p_naturalLength p
      in \<lparr>cc_station1_G = s1_G, cc_station2_G = s2_G, cc_v_G = v, cc_x = vnorm v,
           cc_fscalar = p_stiffness p * stretch,
           cc_pe = 0.5 * (p_stiffness p * stretch) * stretch\<rparr>)"

definition springForce1 :: "ConfigurationCache \<Rightarrow> Vec3" where
  "springForce1 cc = vscale (cc_fscalar cc / cc_x cc) (cc_v_G cc)"

definition springBodyForces ::
    "TwoPointSpringSubsystemRep \<Rightarrow> ConfigurationCache \<Rightarrow> SpatialVec list \<Rightarrow> SpatialVec list" where
  "springBodyForces rep cc rbf =
     addBodyForce (nat (body2 rep)) (spatialForce (cc_station2_G cc) (vneg (springForce1 cc)))
       (addBodyForce (nat (body1 rep)) (spatialForce (cc_station1_G cc) (springForce1 cc)) rbf)"

definition springMobilityForces :: "Real \<Rightarrow> Real list \<Rightarrow> Real list \<Rightarrow> Real list" where
  "springMobilityForces d u mf = (if d \<noteq> 0 then map2 (\<lambda>m u. m - d * u) mf u else mf)"

definition springDynamicsOK :: "TwoPointSpringSubsystemRep \<Rightarrow> State \<Rightarrow> bool" where
  "springDynamicsOK rep s =
     (Moving \<le> getStage s \<and> matterSubsystems s \<noteq> [] \<and> rigidBodyForces s \<noteq> [] \<and>
      particleForces s \<noteq> [] \<and> mobilityForces s \<noteq> [] \<and>
      length (rigidBodyForces s ! 0) = getNBodies (matterSubsystems s ! 0) \<and>
      length (particleForces s ! 0) = getNParticles (matterSubsystems s ! 0) \<and>
      length (mobilityForces s ! 0) = getNMobilities (matterSubsystems s ! 0) \<and>
      0 \<le> body1 rep \<and> body1 rep < int (length (rigidBodyForces s ! 0)) \<and>
      0 \<le> body2 rep \<and> body2 rep < int (length (rigidBodyForces s ! 0)) \<and>
      (if getDamping rep s \<noteq> 0
       then length (mobilityForces s ! 0) = length (getU (matterSubsystems s ! 0)) else True))"

definition springDynamicsResult :: "TwoPointSpringSubsystemRep \<Rightarrow> State \<Rightarrow> State" where
  "springDynamicsResult rep s =
     (updDynamicsCache rep \<lparr>dc_f1_G = springForce1 (getConfigurationCache rep s)\<rparr> s)
        \<lparr>rigidBodyForces := (rigidBodyForces s)
            [0 := springBodyForces rep (getConfigurationCache rep s) (rigidBodyForces s ! 0)],
         mobilityForces := (mobilityForces s)
            [0 := springMobilityForces (getDamping rep s) (getU (matterSubsystems s ! 0))
                    (mobilityForces s ! 0)],
         potentialEnergy := potentialEnergy s + cc_pe (getConfigurationCache rep s)\<rparr>"

section \<open>Closed forms of gravity's Dynamics hook\<close>

text \<open>
  What the loops of gravity's Dynamics hook produce, written without the loops: the body
  and particle forces of one matter subsystem after its two inner loops, the potential
  energy one matter subsystem adds, when the loop body for a matter subsystem passes its
  checks, and the state after \<open>n\<close> matter subsystems. The lemmas \<open>matterLoop_Inr_iff\<close>
  and \<open>gravity_dynamics_Inr_iff\<close> below prove them equal to the hook.
\<close>

definition gravityBodyForces :: "Vec3 \<Rightarrow> MatterSubsystem \<Rightarrow> SpatialVec list \<Rightarrow> SpatialVec list" where
  "gravityBodyForces g matter rbf =
     map (\<lambda>i. sv_add (rbf ! i) (bodyGravityForce g matter i)) [0..<length rbf]"

definition gravityParticleForces :: "Vec3 \<Rightarrow> MatterSubsystem \<Rightarrow> Vec3 list \<Rightarrow> Vec3 list" where
  "gravityParticleForces g matter pf =
     map (\<lambda>i. vadd (pf ! i) (vscale (getParticleMasses matter i) g)) [0..<length pf]"

definition gravityEnergy :: "Vec3 \<Rightarrow> Real \<Rightarrow> MatterSubsystem \<Rightarrow> Real" where
  "gravityEnergy g gh0 matter = (\<Sum>i<getNBodies matter. bodyPotentialEnergy g gh0 matter i)"

definition subsystemOK :: "nat \<Rightarrow> State \<Rightarrow> bool" where
  "subsystemOK k s =
     (k < length (matterSubsystems s) \<and> k < length (rigidBodyForces s) \<and>
      k < length (particleForces s) \<and>
      length (rigidBodyForces s ! k) = getNBodies (matterSubsystems s ! k) \<and>
      length (particleForces s ! k) = getNParticles (matterSubsystems s ! k))"

definition gravityResult :: "Vec3 \<Rightarrow> Real \<Rightarrow> nat \<Rightarrow> State \<Rightarrow> State" where
  "gravityResult g gh0 n s =
     s\<lparr>rigidBodyForces :=
         map (\<lambda>k. if k < n then gravityBodyForces g (matterSubsystems s ! k) (rigidBodyForces s ! k)
                  else rigidBodyForces s ! k) [0..<length (rigidBodyForces s)],
       particleForces :=
         map (\<lambda>k. if k < n then gravityParticleForces g (matterSubsystems s ! k) (particleForces s ! k)
                  else particleForces s ! k) [0..<length (particleForces s)],
       potentialEnergy :=
         potentialEnergy s + (\<Sum>k<n. gravityEnergy g gh0 (matterSubsystems s ! k))\<rparr>"

definition gravityDynamicsOK :: "UniformGravitySubsystemRep \<Rightarrow> State \<Rightarrow> bool" where
  "gravityDynamicsOK rep s =
     (Moving \<le> getStage s \<and>
      (if \<not> isEnabled rep s \<or> getGravityMagnitude rep s = 0 then True
       else \<forall>k<length (matterSubsystems s). subsystemOK k s))"

definition gravityDynamicsResult :: "UniformGravitySubsystemRep \<Rightarrow> State \<Rightarrow> State" where
  "gravityDynamicsResult rep s =
     (if \<not> isEnabled rep s \<or> getGravityMagnitude rep s = 0 then s
      else gravityResult (getGravity rep s) (getGravityMagnitude rep s * getZeroHeight rep s)
             (length (matterSubsystems s)) s)"

section \<open>What the Dynamics hooks read\<close>

text \<open>
  \<open>sameInputs s t\<close>: the state \<open>t\<close> has the stage, the matter subsystems, the
  variables and the Parametrized and Configured cache entries of \<open>s\<close>, and accumulators
  of the same sizes; the contents of the accumulators and of the Dynamics cache entries
  are free. \<open>dynamicsOK\<close> and \<open>dynamicsResult\<close> collect the closed forms of the two
  Dynamics hooks.
\<close>

definition sameInputs :: "State \<Rightarrow> State \<Rightarrow> bool" where
  "sameInputs s t =
     (getStage t = getStage s \<and> matterSubsystems t = matterSubsystems s \<and>
      springParameters t = springParameters s \<and>
      springConfigurationCache t = springConfigurationCache s \<and>
      gravityParameters t = gravityParameters s \<and>
      gravityParameterCache t = gravityParameterCache s \<and>
      map length (rigidBodyForces t) = map length (rigidBodyForces s) \<and>
      map length (particleForces t) = map length (particleForces s) \<and>
      map length (mobilityForces t) = map length (mobilityForces s))"

fun dynamicsOK :: "ForceSubsystem \<Rightarrow> State \<Rightarrow> bool" where
  "dynamicsOK (TwoPointSpring rep) s = springDynamicsOK rep s"
| "dynamicsOK (UniformGravity rep) s = gravityDynamicsOK rep s"

fun dynamicsResult :: "ForceSubsystem \<Rightarrow> State \<Rightarrow> State" where
  "dynamicsResult (TwoPointSpring rep) s = springDynamicsResult rep s"
| "dynamicsResult (UniformGravity rep) s = gravityDynamicsResult rep s"

section \<open>An example system\<close>

text \<open>
  Two matter subsystems. In the first, body 1 sits two units above body 0; a spring of
  stiffness 100 and natural length 1 joins the stations (1, 0, 0) of the two bodies, so
  its length is 2. Gravity is (0, 0, -2) with zero height 1.
\<close>

definition exampleMatter :: MatterSubsystem where
  "exampleMatter =
     \<lparr>getNBodies = 2, getNParticles = 1, getNMobilities = 1,
      getBodyConfiguration =
        (\<lambda>i. \<lparr>X_R = Rotation (Vec3 1 0 0) (Vec3 0 1 0) (Vec3 0 0 1),
               X_T = (if i = 1 then Vec3 0 0 2 else Vec3 0 0 0)\<rparr>),
      getBodyMass = (\<lambda>i. 2),
      getBodyCenterOfMass = (\<lambda>i. Vec3 1 0 0),
      getParticleMasses = (\<lambda>i. 3),
      getU = [5]\<rparr>"

definition exampleMatter2 :: MatterSubsystem where
  "exampleMatter2 =
     \<lparr>getNBodies = 1, getNParticles = 1, getNMobilities = 0,
      getBodyConfiguration =
        (\<lambda>i. \<lparr>X_R = Rotation (Vec3 1 0 0) (Vec3 0 1 0) (Vec3 0 0 1), X_T = Vec3 0 0 4\<rparr>),
      getBodyMass = (\<lambda>i. 5),
      getBodyCenterOfMass = (\<lambda>i. Vec3 0 0 0),
      getParticleMasses = (\<lambda>i. 7),
      getU = []\<rparr>"

definition exampleSpringParameters :: SpringParameters where
  "exampleSpringParameters =
     \<lparr>p_stiffness = 100, p_naturalLength = 1, p_gravity = Vec3 0 0 0, p_damping = 3\<rparr>"

definition exampleSpring :: TwoPointSpringSubsystemRep where
  "exampleSpring =
     \<lparr>spring_index = 0, body1 = 0, body2 = 1, station1 = Vec3 1 0 0, station2 = Vec3 1 0 0,
      spring_defaultParameters = exampleSpringParameters\<rparr>"

definition exampleGravityParameters :: GravityParameters where
  "exampleGravityParameters = \<lparr>gp_gravity = Vec3 0 0 (- 2), gp_zeroHeight = 1, gp_enabled = True\<rparr>"

definition exampleGravity :: UniformGravitySubsystemRep where
  "exampleGravity = \<lparr>gravity_index = 1, gravity_defaultParameters = exampleGravityParameters\<rparr>"

definition exampleConfigurationCache :: ConfigurationCache where
  "exampleConfigurationCache =
     \<lparr>cc_station1_G = Vec3 1 0 0, cc_station2_G = Vec3 1 0 0, cc_v_G = Vec3 0 0 2, cc_x = 2,
      cc_fscalar = 100, cc_pe = 50\<rparr>"

definition exampleState :: State where
  "exampleState =
     \<lparr>getStage = Moving,
      matterSubsystems = [exampleMatter, exampleMatter2],
      rigidBodyForces =
        [[SpatialVec (Vec3 1 1 1) (Vec3 1 1 1), SpatialVec (Vec3 0 0 0) (Vec3 0 0 0)],
         [SpatialVec (Vec3 2 2 2) (Vec3 2 2 2)]],
      particleForces = [[Vec3 1 0 0], [Vec3 0 1 0]],
      mobilityForces = [[7], []],
      potentialEnergy = 10,
      springParameters = (\<lambda>i. exampleSpringParameters),
      springConfigurationCache = (\<lambda>i. exampleConfigurationCache),
      springDynamicsCache = (\<lambda>i. \<lparr>dc_f1_G = Vec3 0 0 0\<rparr>),
      gravityParameters = (\<lambda>i. exampleGravityParameters),
      gravityParameterCache = (\<lambda>i. \<lparr>pc_gDirection = Vec3 0 0 (- 1), pc_gMagnitude = 2\<rparr>)\<rparr>"

text \<open>Variants of the example: a negative stiffness at a stage too low for
  \<^verbatim>\<open>realizeParameters\<close>, a negative natural length, gravity switched off.\<close>

definition exampleBuiltState :: State where
  "exampleBuiltState =
     exampleState\<lparr>getStage := Built,
       springParameters := (\<lambda>i. exampleSpringParameters\<lparr>p_stiffness := - 1\<rparr>)\<rparr>"

definition exampleNegativeLengthState :: State where
  "exampleNegativeLengthState =
     exampleState\<lparr>springParameters := (\<lambda>i. exampleSpringParameters\<lparr>p_naturalLength := - 1\<rparr>)\<rparr>"

definition exampleDisabledState :: State where
  "exampleDisabledState =
     exampleState\<lparr>gravityParameters := (\<lambda>i. exampleGravityParameters\<lparr>gp_enabled := False\<rparr>)\<rparr>"

definition exampleTimedState :: State where
  "exampleTimedState = exampleState\<lparr>getStage := Timed\<rparr>"

text \<open>The example after the spring's Dynamics hook: the force on station 1 is
  (0, 0, 100), the potential energy rises by 50, the mobility force falls by 3 times 5.\<close>

definition exampleAfterSpring :: State where
  "exampleAfterSpring =
     exampleState\<lparr>
       rigidBodyForces :=
         [[SpatialVec (Vec3 1 (- 99) 1) (Vec3 1 1 101),
           SpatialVec (Vec3 0 100 0) (Vec3 0 0 (- 100))],
          [SpatialVec (Vec3 2 2 2) (Vec3 2 2 2)]],
       mobilityForces := [[- 8], []],
       potentialEnergy := 60,
       springDynamicsCache := (springDynamicsCache exampleState)(0 := \<lparr>dc_f1_G = Vec3 0 0 100\<rparr>)\<rparr>"

text \<open>The example after gravity's Dynamics hook.\<close>

definition exampleAfterGravity :: State where
  "exampleAfterGravity =
     exampleState\<lparr>
       rigidBodyForces :=
         [[SpatialVec (Vec3 1 5 1) (Vec3 1 1 (- 3)),
           SpatialVec (Vec3 0 4 0) (Vec3 0 0 (- 4))],
          [SpatialVec (Vec3 2 2 2) (Vec3 2 2 (- 8))]],
       particleForces := [[Vec3 1 0 (- 6)], [Vec3 0 1 (- 14)]],
       potentialEnergy := - 56\<rparr>"

text \<open>The example after both Dynamics hooks, in either order.\<close>

definition exampleAfterBoth :: State where
  "exampleAfterBoth =
     exampleState\<lparr>
       rigidBodyForces :=
         [[SpatialVec (Vec3 1 (- 95) 1) (Vec3 1 1 97),
           SpatialVec (Vec3 0 104 0) (Vec3 0 0 (- 104))],
          [SpatialVec (Vec3 2 2 2) (Vec3 2 2 (- 8))]],
       particleForces := [[Vec3 1 0 (- 6)], [Vec3 0 1 (- 14)]],
       mobilityForces := [[- 8], []],
       potentialEnergy := - 6,
       springDynamicsCache := (springDynamicsCache exampleState)(0 := \<lparr>dc_f1_G = Vec3 0 0 100\<rparr>)\<rparr>"

text \<open>
  Further states of the example: one at stage Timed whose configuration cache has not been
  computed yet, and two whose cached gravity magnitude (0 and 7) is not the norm of the
  gravity vector \<open>(0, 0, -2)\<close>, with the state after gravity's Dynamics hook on the second.
\<close>

definition exampleUnconfiguredState :: State where
  "exampleUnconfiguredState =
     exampleState\<lparr>getStage := Timed,
       springConfigurationCache :=
         (\<lambda>i. \<lparr>cc_station1_G = Vec3 0 0 0, cc_station2_G = Vec3 0 0 0, cc_v_G = Vec3 0 0 0,
               cc_x = 0, cc_fscalar = 0, cc_pe = 0\<rparr>)\<rparr>"

definition exampleZeroMagnitudeState :: State where
  "exampleZeroMagnitudeState =
     exampleState\<lparr>gravityParameterCache :=
       (\<lambda>i. \<lparr>pc_gDirection = Vec3 0 0 1, pc_gMagnitude = 0\<rparr>)\<rparr>"

definition exampleMagnitude7State :: State where
  "exampleMagnitude7State =
     exampleState\<lparr>gravityParameterCache :=
       (\<lambda>i. \<lparr>pc_gDirection = Vec3 0 0 (- 1), pc_gMagnitude = 7\<rparr>)\<rparr>"

definition exampleAfterGravity7 :: State where
  "exampleAfterGravity7 =
     exampleMagnitude7State\<lparr>
       rigidBodyForces :=
         [[SpatialVec (Vec3 1 5 1) (Vec3 1 1 (- 3)),
           SpatialVec (Vec3 0 4 0) (Vec3 0 0 (- 4))],
          [SpatialVec (Vec3 2 2 2) (Vec3 2 2 (- 8))]],
       particleForces := [[Vec3 1 0 (- 6)], [Vec3 0 1 (- 14)]],
       potentialEnergy := - 101\<rparr>"

section \<open>Doubles with infinities and not-a-number\<close>

text \<open>
  A double is a finite real, an infinity or a not-a-number. \<open>fl\<close> brings the exact
  result of an operation back into the doubles: beyond the largest finite double
  (\<^verbatim>\<open>DBL_MAX\<close>) it is an infinity, and a non-zero result smaller in absolute value than
  the smallest positive double (\<^verbatim>\<open>DBL_TRUE_MIN\<close>) is zero. Left out of this model: the
  rounding of the mantissa (a result in range is kept exactly), the sign of zero, and the
  rounding at the two ends of the range (IEEE 754 rounds to \<^verbatim>\<open>DBL_MAX\<close> a result just
  above it, and to \<^verbatim>\<open>DBL_TRUE_MIN\<close> a result between a half of it and it).
\<close>

datatype Double = Finite real | PosInf | NegInf | NaN

definition DBL_MAX :: real where
  "DBL_MAX = 2 ^ 1024 - 2 ^ 971"

definition DBL_TRUE_MIN :: real where
  "DBL_TRUE_MIN = 1 / 2 ^ 1074"

definition fl :: "real \<Rightarrow> Double" where
  "fl r = (if DBL_MAX < r then PosInf
           else if r < - DBL_MAX then NegInf
           else if r \<noteq> 0 \<and> \<bar>r\<bar> < DBL_TRUE_MIN then Finite 0
           else Finite r)"

text \<open>
  The operations on doubles. A not-a-number operand gives a not-a-number; so do
  \<open>\<infinity> - \<infinity>\<close>, \<open>0 \<times> \<infinity>\<close>, \<open>0 / 0\<close> and \<open>\<infinity> / \<infinity>\<close>; a non-zero finite number over zero is
  an infinity, and a finite number over an infinity is zero.
\<close>

fun dneg :: "Double \<Rightarrow> Double" where
  "dneg (Finite a) = Finite (- a)"
| "dneg PosInf = NegInf"
| "dneg NegInf = PosInf"
| "dneg NaN = NaN"

fun dadd :: "Double \<Rightarrow> Double \<Rightarrow> Double" where
  "dadd NaN y = NaN"
| "dadd x NaN = NaN"
| "dadd PosInf NegInf = NaN"
| "dadd NegInf PosInf = NaN"
| "dadd PosInf y = PosInf"
| "dadd x PosInf = PosInf"
| "dadd NegInf y = NegInf"
| "dadd x NegInf = NegInf"
| "dadd (Finite a) (Finite b) = fl (a + b)"

definition dsub :: "Double \<Rightarrow> Double \<Rightarrow> Double" where
  "dsub x y = dadd x (dneg y)"

fun signed_inf :: "bool \<Rightarrow> Double" where
  "signed_inf True = PosInf"
| "signed_inf False = NegInf"

fun dmul :: "Double \<Rightarrow> Double \<Rightarrow> Double" where
  "dmul NaN y = NaN"
| "dmul x NaN = NaN"
| "dmul (Finite a) (Finite b) = fl (a * b)"
| "dmul PosInf (Finite b) = (if b = 0 then NaN else signed_inf (0 < b))"
| "dmul NegInf (Finite b) = (if b = 0 then NaN else signed_inf (b < 0))"
| "dmul (Finite a) PosInf = (if a = 0 then NaN else signed_inf (0 < a))"
| "dmul (Finite a) NegInf = (if a = 0 then NaN else signed_inf (a < 0))"
| "dmul PosInf PosInf = PosInf"
| "dmul NegInf NegInf = PosInf"
| "dmul PosInf NegInf = NegInf"
| "dmul NegInf PosInf = NegInf"

fun ddiv :: "Double \<Rightarrow> Double \<Rightarrow> Double" where
  "ddiv NaN y = NaN"
| "ddiv x NaN = NaN"
| "ddiv (Finite a) (Finite b) =
     (if b = 0 then (if a = 0 then NaN else signed_inf (0 < a)) else fl (a / b))"
| "ddiv (Finite a) PosInf = Finite 0"
| "ddiv (Finite a) NegInf = Finite 0"
| "ddiv PosInf (Finite b) = signed_inf (0 \<le> b)"
| "ddiv NegInf (Finite b) = signed_inf (b < 0)"
| "ddiv x y = NaN"

fun dsqrt :: "Double \<Rightarrow> Double" where
  "dsqrt (Finite a) = (if a < 0 then NaN else fl (sqrt a))"
| "dsqrt PosInf = PosInf"
| "dsqrt NegInf = NaN"
| "dsqrt NaN = NaN"

text \<open>\<^verbatim>\<open>x == 0\<close> and \<^verbatim>\<open>x != 0\<close> on doubles: a not-a-number is different from zero.\<close>

definition d_is_zero :: "Double \<Rightarrow> bool" where
  "d_is_zero x = (x = Finite 0)"

text \<open>
  The vector types and the state over doubles. Each is the type of the same name of the
  first model with \<open>Double\<close> for \<open>Real\<close>, and its name ends in \<open>_d\<close>; the fields that the
  three hooks below do not read (masses, centers of mass, default parameters) are left out.
  \<^verbatim>\<open>v.norm()\<close> is the square root of \<^verbatim>\<open>x*x + y*y + z*z\<close>, each operation a double
  operation.
\<close>

datatype Vec3_d = Vec3_d Double Double Double

fun vadd_d :: "Vec3_d \<Rightarrow> Vec3_d \<Rightarrow> Vec3_d" where
  "vadd_d (Vec3_d a b c) (Vec3_d d e f) = Vec3_d (dadd a d) (dadd b e) (dadd c f)"

fun vsub_d :: "Vec3_d \<Rightarrow> Vec3_d \<Rightarrow> Vec3_d" where
  "vsub_d (Vec3_d a b c) (Vec3_d d e f) = Vec3_d (dsub a d) (dsub b e) (dsub c f)"

fun vscale_d :: "Double \<Rightarrow> Vec3_d \<Rightarrow> Vec3_d" where
  "vscale_d r (Vec3_d a b c) = Vec3_d (dmul r a) (dmul r b) (dmul r c)"


fun dot_d :: "Vec3_d \<Rightarrow> Vec3_d \<Rightarrow> Double" where
  "dot_d (Vec3_d a b c) (Vec3_d d e f) = dadd (dadd (dmul a d) (dmul b e)) (dmul c f)"

fun cross_d :: "Vec3_d \<Rightarrow> Vec3_d \<Rightarrow> Vec3_d" where
  "cross_d (Vec3_d a b c) (Vec3_d d e f) =
     Vec3_d (dsub (dmul b f) (dmul c e)) (dsub (dmul c d) (dmul a f)) (dsub (dmul a e) (dmul b d))"

definition vnorm_d :: "Vec3_d \<Rightarrow> Double" where
  "vnorm_d v = dsqrt (dot_d v v)"

datatype Rotation_d = Rotation_d Vec3_d Vec3_d Vec3_d

fun rot_apply_d :: "Rotation_d \<Rightarrow> Vec3_d \<Rightarrow> Vec3_d" where
  "rot_apply_d (Rotation_d r1 r2 r3) v = Vec3_d (dot_d r1 v) (dot_d r2 v) (dot_d r3 v)"

record Transform_d =
  X_R_d :: Rotation_d
  X_T_d :: Vec3_d

datatype SpatialVec_d = SpatialVec_d Vec3_d Vec3_d

fun sv_add_d :: "SpatialVec_d \<Rightarrow> SpatialVec_d \<Rightarrow> SpatialVec_d" where
  "sv_add_d (SpatialVec_d t f) (SpatialVec_d t' f') = SpatialVec_d (vadd_d t t') (vadd_d f f')"

fun sv_sub_d :: "SpatialVec_d \<Rightarrow> SpatialVec_d \<Rightarrow> SpatialVec_d" where
  "sv_sub_d (SpatialVec_d t f) (SpatialVec_d t' f') = SpatialVec_d (vsub_d t t') (vsub_d f f')"

record MatterSubsystem_d =
  getNBodies_d :: nat
  getNParticles_d :: nat
  getNMobilities_d :: nat
  getBodyConfiguration_d :: "int \<Rightarrow> Transform_d"
  getU_d :: "Double list"

record SpringParameters_d =
  p_stiffness_d :: Double
  p_naturalLength_d :: Double
  p_gravity_d :: Vec3_d
  p_damping_d :: Double

record ConfigurationCache_d =
  cc_station1_G_d :: Vec3_d
  cc_station2_G_d :: Vec3_d
  cc_v_G_d :: Vec3_d
  cc_x_d :: Double
  cc_fscalar_d :: Double
  cc_pe_d :: Double

record DynamicsCache_d =
  dc_f1_G_d :: Vec3_d

record GravityParameters_d =
  gp_gravity_d :: Vec3_d
  gp_zeroHeight_d :: Double
  gp_enabled_d :: bool

record ParameterCache_d =
  pc_gDirection_d :: Vec3_d
  pc_gMagnitude_d :: Double

record State_d =
  getStage_d :: Stage
  matterSubsystems_d :: "MatterSubsystem_d list"
  rigidBodyForces_d :: "SpatialVec_d list list"
  particleForces_d :: "Vec3_d list list"
  mobilityForces_d :: "Double list list"
  potentialEnergy_d :: Double
  springParameters_d :: "nat \<Rightarrow> SpringParameters_d"
  springConfigurationCache_d :: "nat \<Rightarrow> ConfigurationCache_d"
  springDynamicsCache_d :: "nat \<Rightarrow> DynamicsCache_d"
  gravityParameters_d :: "nat \<Rightarrow> GravityParameters_d"
  gravityParameterCache_d :: "nat \<Rightarrow> ParameterCache_d"

definition vector_sub_scaled_d :: "Double list \<Rightarrow> Double \<Rightarrow> Double list \<Rightarrow> Exception + Double list" where
  "vector_sub_scaled_d a r b =
     (if length a = length b then Inr (map2 (\<lambda>m u. dsub m (dmul r u)) a b)
      else Inl AssertionFailed)"

record TwoPointSpringSubsystemRep_d =
  spring_index_d :: nat
  body1_d :: int
  body2_d :: int
  station1_d :: Vec3_d
  station2_d :: Vec3_d

definition getParameters_d :: "TwoPointSpringSubsystemRep_d \<Rightarrow> State_d \<Rightarrow> SpringParameters_d" where
  "getParameters_d rep s = springParameters_d s (spring_index_d rep)"

definition getConfigurationCache_d :: "TwoPointSpringSubsystemRep_d \<Rightarrow> State_d \<Rightarrow> ConfigurationCache_d" where
  "getConfigurationCache_d rep s = springConfigurationCache_d s (spring_index_d rep)"

definition updConfigurationCache_d ::
    "TwoPointSpringSubsystemRep_d \<Rightarrow> ConfigurationCache_d \<Rightarrow> State_d \<Rightarrow> State_d" where
  "updConfigurationCache_d rep cc s =
     s\<lparr>springConfigurationCache_d := (springConfigurationCache_d s)(spring_index_d rep := cc)\<rparr>"

definition getDynamicsCache_d :: "TwoPointSpringSubsystemRep_d \<Rightarrow> State_d \<Rightarrow> DynamicsCache_d" where
  "getDynamicsCache_d rep s = springDynamicsCache_d s (spring_index_d rep)"

definition updDynamicsCache_d ::
    "TwoPointSpringSubsystemRep_d \<Rightarrow> DynamicsCache_d \<Rightarrow> State_d \<Rightarrow> State_d" where
  "updDynamicsCache_d rep dc s =
     s\<lparr>springDynamicsCache_d := (springDynamicsCache_d s)(spring_index_d rep := dc)\<rparr>"

definition getDamping_d :: "TwoPointSpringSubsystemRep_d \<Rightarrow> State_d \<Rightarrow> Double" where
  "getDamping_d rep s = p_damping_d (getParameters_d rep s)"

text \<open>
  The two computing hooks of the spring and \<^verbatim>\<open>realizeParameters\<close> of gravity, over
  doubles: the definitions of the first model with the double operations, in the source's
  order of evaluation. In \<^verbatim>\<open>realizeDynamics\<close> the quotient \<^verbatim>\<open>cc.fscalar/cc.x\<close> is taken
  first and then multiplied by \<^verbatim>\<open>cc.v_G\<close>; the guards \<^verbatim>\<open>getDamping(s) != 0\<close> and
  \<^verbatim>\<open>pc.gMagnitude==0\<close> are comparisons of doubles.
\<close>

definition TwoPointSpring_realizeConfiguration_d ::
    "TwoPointSpringSubsystemRep_d \<Rightarrow> State_d \<Rightarrow> Exception + State_d" where
  "TwoPointSpring_realizeConfiguration_d rep s =
     bindE (SimTK_STAGECHECK_GE_ALWAYS (getStage_d s) Timed ''TwoPointSpring::realizeConfiguration()'')
       (\<lambda>_. let p = getParameters_d rep s in
        bindE (element_at (matterSubsystems_d s) 0)
       (\<lambda>matter.
          let X_GB1 = getBodyConfiguration_d matter (body1_d rep);
              X_GB2 = getBodyConfiguration_d matter (body2_d rep);
              s1_G = rot_apply_d (X_R_d X_GB1) (station1_d rep);
              s2_G = rot_apply_d (X_R_d X_GB2) (station2_d rep);
              p1_G = vadd_d (X_T_d X_GB1) s1_G;
              p2_G = vadd_d (X_T_d X_GB2) s2_G;
              v = vsub_d p2_G p1_G;
              x = vnorm_d v;
              stretch = dsub x (p_naturalLength_d p);
              fscalar = dmul (p_stiffness_d p) stretch
          in Inr (updConfigurationCache_d rep
                   \<lparr>cc_station1_G_d = s1_G, cc_station2_G_d = s2_G, cc_v_G_d = v, cc_x_d = x,
                    cc_fscalar_d = fscalar,
                    cc_pe_d = dmul (dmul (Finite (1 / 2)) fscalar) stretch\<rparr> s)))"

definition TwoPointSpring_realizeDynamics_d ::
    "TwoPointSpringSubsystemRep_d \<Rightarrow> State_d \<Rightarrow> Exception + State_d" where
  "TwoPointSpring_realizeDynamics_d rep s =
     bindE (SimTK_STAGECHECK_GE_ALWAYS (getStage_d s) Moving ''TwoPointSpring::realizeDynamics()'')
       (\<lambda>_. let cc = getConfigurationCache_d rep s;
                f1 = vscale_d (ddiv (cc_fscalar_d cc) (cc_x_d cc)) (cc_v_G_d cc)
        in
        bindE (element_at (matterSubsystems_d s) 0) (\<lambda>matter.
        bindE (element_at (rigidBodyForces_d s) 0) (\<lambda>rbf.
        bindE (element_at (particleForces_d s) 0) (\<lambda>pf.
        bindE (element_at (mobilityForces_d s) 0) (\<lambda>mf.
          if length rbf \<noteq> getNBodies_d matter \<or> length pf \<noteq> getNParticles_d matter
             \<or> length mf \<noteq> getNMobilities_d matter
          then Inl AssertionFailed
          else
        bindE (int_index rbf (body1_d rep)) (\<lambda>b1.
          let rbf1 = rbf[b1 := sv_add_d (rbf ! b1)
                                 (SpatialVec_d (cross_d (cc_station1_G_d cc) f1) f1)] in
        bindE (int_index rbf1 (body2_d rep)) (\<lambda>b2.
          let rbf2 = rbf1[b2 := sv_sub_d (rbf1 ! b2)
                                  (SpatialVec_d (cross_d (cc_station2_G_d cc) f1) f1)] in
        bindE (if \<not> d_is_zero (getDamping_d rep s)
               then vector_sub_scaled_d mf (getDamping_d rep s) (getU_d matter) else Inr mf) (\<lambda>mf'.
          Inr ((updDynamicsCache_d rep \<lparr>dc_f1_G_d = f1\<rparr> s)
                 \<lparr>rigidBodyForces_d := (rigidBodyForces_d s)[0 := rbf2],
                  mobilityForces_d := (mobilityForces_d s)[0 := mf'],
                  potentialEnergy_d := dadd (potentialEnergy_d s) (cc_pe_d cc)\<rparr>)))))))))"






text \<open>When the spring's Dynamics hook passes its checks; the length of the spring is not
  among the conditions.\<close>

definition springDynamicsOK_d :: "TwoPointSpringSubsystemRep_d \<Rightarrow> State_d \<Rightarrow> bool" where
  "springDynamicsOK_d rep s =
     (Moving \<le> getStage_d s \<and> matterSubsystems_d s \<noteq> [] \<and> rigidBodyForces_d s \<noteq> [] \<and>
      particleForces_d s \<noteq> [] \<and> mobilityForces_d s \<noteq> [] \<and>
      length (rigidBodyForces_d s ! 0) = getNBodies_d (matterSubsystems_d s ! 0) \<and>
      length (particleForces_d s ! 0) = getNParticles_d (matterSubsystems_d s ! 0) \<and>
      length (mobilityForces_d s ! 0) = getNMobilities_d (matterSubsystems_d s ! 0) \<and>
      0 \<le> body1_d rep \<and> body1_d rep < int (length (rigidBodyForces_d s ! 0)) \<and>
      0 \<le> body2_d rep \<and> body2_d rep < int (length (rigidBodyForces_d s ! 0)) \<and>
      (if d_is_zero (getDamping_d rep s) then True
       else length (mobilityForces_d s ! 0) = length (getU_d (matterSubsystems_d s ! 0))))"


definition nanVec :: Vec3_d where
  "nanVec = Vec3_d NaN NaN NaN"

definition zeroVec_d :: Vec3_d where
  "zeroVec_d = Vec3_d (Finite 0) (Finite 0) (Finite 0)"

text \<open>
  An example over doubles: one matter subsystem with two bodies, body 1 two units up; a
  spring from \<open>(1, 0, 2)\<close> on body 0 to \<open>(1, 0, 0)\<close> on body 1, so that its two stations
  coincide in the ground frame; a state at stage Moving whose configuration cache and
  gravity parameter cache hold other values than the hooks compute; the configuration
  cache of the coincident stations and the states after the two hooks of the spring; and
  two states with a gravity vector whose square leaves the range of a double at either
  end.
\<close>

definition exampleMatter_d :: MatterSubsystem_d where
  "exampleMatter_d =
     \<lparr>getNBodies_d = 2, getNParticles_d = 1, getNMobilities_d = 1,
      getBodyConfiguration_d =
        (\<lambda>i. \<lparr>X_R_d = Rotation_d (Vec3_d (Finite 1) (Finite 0) (Finite 0))
                                   (Vec3_d (Finite 0) (Finite 1) (Finite 0))
                                   (Vec3_d (Finite 0) (Finite 0) (Finite 1)),
               X_T_d = (if i = 1 then Vec3_d (Finite 0) (Finite 0) (Finite 2)
                        else Vec3_d (Finite 0) (Finite 0) (Finite 0))\<rparr>),
      getU_d = [Finite 5]\<rparr>"

definition exampleCoincidentSpring_d :: TwoPointSpringSubsystemRep_d where
  "exampleCoincidentSpring_d =
     \<lparr>spring_index_d = 0, body1_d = 0, body2_d = 1,
      station1_d = Vec3_d (Finite 1) (Finite 0) (Finite 2),
      station2_d = Vec3_d (Finite 1) (Finite 0) (Finite 0)\<rparr>"


definition exampleState_d :: State_d where
  "exampleState_d =
     \<lparr>getStage_d = Moving,
      matterSubsystems_d = [exampleMatter_d],
      rigidBodyForces_d =
        [[SpatialVec_d (Vec3_d (Finite 1) (Finite 1) (Finite 1)) (Vec3_d (Finite 1) (Finite 1) (Finite 1)),
          SpatialVec_d zeroVec_d zeroVec_d]],
      particleForces_d = [[Vec3_d (Finite 1) (Finite 0) (Finite 0)]],
      mobilityForces_d = [[Finite 7]],
      potentialEnergy_d = Finite 10,
      springParameters_d =
        (\<lambda>i. \<lparr>p_stiffness_d = Finite 100, p_naturalLength_d = Finite 1, p_gravity_d = zeroVec_d,
              p_damping_d = Finite 3\<rparr>),
      springConfigurationCache_d =
        (\<lambda>i. \<lparr>cc_station1_G_d = zeroVec_d, cc_station2_G_d = zeroVec_d,
              cc_v_G_d = Vec3_d (Finite 0) (Finite 0) (Finite 2), cc_x_d = Finite 2,
              cc_fscalar_d = Finite 100, cc_pe_d = Finite 50\<rparr>),
      springDynamicsCache_d = (\<lambda>i. \<lparr>dc_f1_G_d = zeroVec_d\<rparr>),
      gravityParameters_d =
        (\<lambda>i. \<lparr>gp_gravity_d = Vec3_d (Finite 0) (Finite 0) (Finite (- 2)),
              gp_zeroHeight_d = Finite 1, gp_enabled_d = True\<rparr>),
      gravityParameterCache_d =
        (\<lambda>i. \<lparr>pc_gDirection_d = Vec3_d (Finite 1) (Finite 0) (Finite 0),
              pc_gMagnitude_d = Finite 7\<rparr>)\<rparr>"

definition exampleCoincidentCache_d :: ConfigurationCache_d where
  "exampleCoincidentCache_d =
     \<lparr>cc_station1_G_d = Vec3_d (Finite 1) (Finite 0) (Finite 2),
      cc_station2_G_d = Vec3_d (Finite 1) (Finite 0) (Finite 0),
      cc_v_G_d = zeroVec_d, cc_x_d = Finite 0,
      cc_fscalar_d = Finite (- 100), cc_pe_d = Finite 50\<rparr>"

definition exampleCoincidentState_d :: State_d where
  "exampleCoincidentState_d =
     updConfigurationCache_d exampleCoincidentSpring_d exampleCoincidentCache_d exampleState_d"

definition exampleAfterCoincident_d :: State_d where
  "exampleAfterCoincident_d =
     exampleCoincidentState_d\<lparr>
       rigidBodyForces_d := [[SpatialVec_d nanVec nanVec, SpatialVec_d nanVec nanVec]],
       mobilityForces_d := [[Finite (- 8)]],
       potentialEnergy_d := Finite 60,
       springDynamicsCache_d :=
         (springDynamicsCache_d exampleCoincidentState_d)(0 := \<lparr>dc_f1_G_d = nanVec\<rparr>)\<rparr>"



section \<open>Basic facts\<close>

lemma stage_simps:
  "(a::Stage) < b \<longleftrightarrow> stage_num a < stage_num b"
  "(a::Stage) \<le> b \<longleftrightarrow> stage_num a \<le> stage_num b"
  by (simp_all add: less_Stage_def less_eq_Stage_def)

lemma not_below_Allocated: "\<not> (a::Stage) < Allocated"
  by (simp add: stage_simps)

lemma bindE_simps: "bindE (Inl e) k = Inl e" "bindE (Inr v) k = k v"
  by (simp_all add: bindE_def)

section \<open>Stage checks\<close>

lemma reportsStageError_bindE:
  "reportsStageError (bindE c k) =
     (case c of Inl e \<Rightarrow> reportsStageError (Inl e) | Inr v \<Rightarrow> reportsStageError (k v))"
  by (cases c) (simp_all add: bindE_def)

text \<open>A hook that starts with a stage check, and whose remainder raises no stage error,
  raises one exactly when the check fails.\<close>

lemma stage_guard:
  assumes "\<And>u. \<not> reportsStageError (k u)"
  shows "(reportsStageError (bindE (SimTK_STAGECHECK_GE_ALWAYS cur tgt nm) k) \<longleftrightarrow> cur < tgt) \<and>
         (cur < tgt \<longrightarrow>
            bindE (SimTK_STAGECHECK_GE_ALWAYS cur tgt nm) k = Inl (StageTooLow cur tgt nm))"
  using assms by (simp add: SimTK_STAGECHECK_GE_ALWAYS_def bindE_def)

lemma gravityOnSubsystem_no_stage_error: "\<not> reportsStageError (gravityOnSubsystem g gh0 k s)"
  by (simp add: gravityOnSubsystem_def reportsStageError_bindE getMatterSubsystem_def element_at_def
      Let_def split: sum.splits prod.splits)

lemma matterLoop_no_stage_error: "\<not> reportsStageError (matterLoop g gh0 n s)"
  by (induction n)
     (auto simp add: reportsStageError_bindE gravityOnSubsystem_no_stage_error split: sum.splits)

lemma spring_dynamics_rest_no_stage_error:
  "\<not> reportsStageError
     (bindE (getMatterSubsystem s 0) (\<lambda>matter.
        bindE (element_at (rigidBodyForces s) 0) (\<lambda>rbf.
        bindE (element_at (particleForces s) 0) (\<lambda>pf.
        bindE (element_at (mobilityForces s) 0) (\<lambda>mf.
          if length rbf \<noteq> getNBodies matter \<or> length pf \<noteq> getNParticles matter
             \<or> length mf \<noteq> getNMobilities matter
          then Inl AssertionFailed
          else
        bindE (int_index rbf (body1 rep)) (\<lambda>b1.
        bindE (int_index (rbf[b1 := F1 rbf b1]) (body2 rep)) (\<lambda>b2.
        bindE (if getDamping rep s \<noteq> 0
               then vector_sub_scaled mf (getDamping rep s) (getU matter) else Inr mf) (\<lambda>mf'.
          Inr (G rbf b1 b2 mf')))))))))"
  by (simp add: reportsStageError_bindE getMatterSubsystem_def element_at_def int_index_def
      vector_sub_scaled_def split: sum.splits)

lemma hook_stage_checks:
  "(reportsStageError (TwoPointSpring_realizeModeling sp s) \<longleftrightarrow> getStage s < Built) \<and>
   (getStage s < Built \<longrightarrow> TwoPointSpring_realizeModeling sp s
       = Inl (StageTooLow (getStage s) Built ''TwoPointSpring::realizeModeling()''))"
  "(reportsStageError (TwoPointSpring_realizeParameters sp s) \<longleftrightarrow> getStage s < Modeled) \<and>
   (getStage s < Modeled \<longrightarrow> TwoPointSpring_realizeParameters sp s
       = Inl (StageTooLow (getStage s) Modeled ''TwoPointSpring::realizeParameters()''))"
  "(reportsStageError (TwoPointSpring_realizeTime sp s) \<longleftrightarrow> getStage s < Parametrized) \<and>
   (getStage s < Parametrized \<longrightarrow> TwoPointSpring_realizeTime sp s
       = Inl (StageTooLow (getStage s) Parametrized ''TwoPointSpring::realizeTime()''))"
  "(reportsStageError (TwoPointSpring_realizeConfiguration sp s) \<longleftrightarrow> getStage s < Timed) \<and>
   (getStage s < Timed \<longrightarrow> TwoPointSpring_realizeConfiguration sp s
       = Inl (StageTooLow (getStage s) Timed ''TwoPointSpring::realizeConfiguration()''))"
  "(reportsStageError (TwoPointSpring_realizeMotion sp s) \<longleftrightarrow> getStage s < Configured) \<and>
   (getStage s < Configured \<longrightarrow> TwoPointSpring_realizeMotion sp s
       = Inl (StageTooLow (getStage s) Configured ''TwoPointSpring::realizeMotion()''))"
  "(reportsStageError (TwoPointSpring_realizeReaction sp s) \<longleftrightarrow> getStage s < Dynamics) \<and>
   (getStage s < Dynamics \<longrightarrow> TwoPointSpring_realizeReaction sp s
       = Inl (StageTooLow (getStage s) Dynamics ''TwoPointSpring::realizeReaction()''))"
  "(reportsStageError (UniformGravity_realizeParameters gr s) \<longleftrightarrow> getStage s < Modeled) \<and>
   (getStage s < Modeled \<longrightarrow> UniformGravity_realizeParameters gr s
       = Inl (StageTooLow (getStage s) Modeled ''UniformGravity::realizeParameters()''))"
  "(reportsStageError (UniformGravity_realizeConfiguration gr s) \<longleftrightarrow> getStage s < Timed) \<and>
   (getStage s < Timed \<longrightarrow> UniformGravity_realizeConfiguration gr s
       = Inl (StageTooLow (getStage s) Timed ''UniformGravity::realizeConfiguration()''))"
  unfolding TwoPointSpring_realizeModeling_def TwoPointSpring_realizeParameters_def
    TwoPointSpring_realizeTime_def TwoPointSpring_realizeConfiguration_def
    TwoPointSpring_realizeMotion_def TwoPointSpring_realizeReaction_def
    UniformGravity_realizeParameters_def UniformGravity_realizeConfiguration_def
  by (rule stage_guard;
      simp add: reportsStageError_bindE SimTK_VALUECHECK_NONNEG_ALWAYS_def getMatterSubsystem_def
        element_at_def Let_def split: sum.splits)+

lemma spring_dynamics_stage_check:
  "(reportsStageError (TwoPointSpring_realizeDynamics sp s) \<longleftrightarrow> getStage s < Moving) \<and>
   (getStage s < Moving \<longrightarrow> TwoPointSpring_realizeDynamics sp s
       = Inl (StageTooLow (getStage s) Moving ''TwoPointSpring::realizeDynamics()''))"
  unfolding TwoPointSpring_realizeDynamics_def Let_def
  by (rule stage_guard) (rule spring_dynamics_rest_no_stage_error)

lemma gravity_dynamics_stage_check:
  "(reportsStageError (UniformGravity_realizeDynamics gr s) \<longleftrightarrow> getStage s < Moving) \<and>
   (getStage s < Moving \<longrightarrow> UniformGravity_realizeDynamics gr s
       = Inl (StageTooLow (getStage s) Moving ''UniformGravity::realizeDynamics()''))"
  unfolding UniformGravity_realizeDynamics_def Let_def
  by (rule stage_guard) (simp add: matterLoop_no_stage_error)

text \<open>
  C8. Every realize hook of the spring and of gravity reports a stage error exactly when
  the state's realized stage is below the stage before the one the hook realizes, and the
  error then carries the actual stage, the required stage and the hook's name. (For
  \<^verbatim>\<open>realizeConstruction\<close> no stage is below the required one, and it reports none.)
  The error is the hook's result: nothing in the hook catches it.
\<close>

theorem realize_hooks_stage_check:
  "(hook, st, nm) \<in> set (realizeHooks sp gr) \<Longrightarrow>
     (reportsStageError (hook s) \<longleftrightarrow> getStage s < predecessor st) \<and>
     (getStage s < predecessor st \<longrightarrow>
        hook s = Inl (StageTooLow (getStage s) (predecessor st) nm))"
  unfolding realizeHooks_def
  apply (simp only: list.set insert_iff empty_iff prod.inject)
  apply (elim disjE conjE FalseE; hypsubst; simp only: predecessor.simps)
             apply (simp add: TwoPointSpring_realizeConstruction_def not_below_Allocated)
            apply (rule hook_stage_checks)+
       apply (rule spring_dynamics_stage_check)
      apply (rule hook_stage_checks)
     apply (simp add: UniformGravity_realizeConstruction_def not_below_Allocated)
    apply (rule hook_stage_checks)+
  apply (rule gravity_dynamics_stage_check)
  done

theorem realize_hooks_stage_check_witness:
  "reportsStageError (TwoPointSpring_realizeDynamics exampleSpring exampleTimedState)
   \<and> getStage exampleTimedState < Moving
   \<and> TwoPointSpring_realizeDynamics exampleSpring exampleTimedState
       = Inl (StageTooLow Timed Moving ''TwoPointSpring::realizeDynamics()'')"
proof -
  have m: "(TwoPointSpring_realizeDynamics exampleSpring, Dynamics,
            ''TwoPointSpring::realizeDynamics()'')
        \<in> set (realizeHooks exampleSpring exampleGravity)"
    by (simp add: realizeHooks_def)
  have lt: "getStage exampleTimedState < Moving"
    by (simp add: exampleTimedState_def stage_simps)
  have st: "getStage exampleTimedState = Timed"
    by (simp add: exampleTimedState_def)
  show ?thesis
    using realize_hooks_stage_check [OF m, of exampleTimedState] lt st by simp
qed

section \<open>Value checks of the spring\<close>

text \<open>
  C9, as stated: \<^verbatim>\<open>realizeParameters\<close> of the spring raises a value error if and only if
  the stiffness or the natural length is negative. It fails where the stage check comes
  first: at stage Built with stiffness -1 the hook raises the stage error, not a value
  error.
\<close>

theorem spring_realizeParameters_stage_check_first:
  "getStiffness exampleSpring exampleBuiltState < 0
   \<and> TwoPointSpring_realizeParameters exampleSpring exampleBuiltState
       = Inl (StageTooLow Built Modeled ''TwoPointSpring::realizeParameters()'')
   \<and> \<not> reportsValueError (TwoPointSpring_realizeParameters exampleSpring exampleBuiltState)"
  by (simp add: TwoPointSpring_realizeParameters_def SimTK_STAGECHECK_GE_ALWAYS_def
      SimTK_VALUECHECK_NONNEG_ALWAYS_def bindE_def getStiffness_def getParameters_def
      exampleBuiltState_def exampleState_def exampleSpringParameters_def stage_simps)

text \<open>
  C9, amended: when the state's stage is at least Modeled, \<^verbatim>\<open>realizeParameters\<close> of the
  spring raises a value error if and only if the stiffness or the natural length is
  negative; the error names the field (the stiffness first), carries the value and the
  calling location; otherwise the hook returns the state as it was.
\<close>

theorem spring_realizeParameters_value_check:
  "Modeled \<le> getStage s \<Longrightarrow>
   TwoPointSpring_realizeParameters rep s =
    (if getStiffness rep s < 0
     then Inl (ValueWasNegative ''stiffness'' (getStiffness rep s)
                ''TwoPointSpring::realizeParameters()'')
     else if getNaturalLength rep s < 0
     then Inl (ValueWasNegative ''naturalLength'' (getNaturalLength rep s)
                ''TwoPointSpring::realizeParameters()'')
     else Inr s)"
  by (simp add: TwoPointSpring_realizeParameters_def SimTK_STAGECHECK_GE_ALWAYS_def
      SimTK_VALUECHECK_NONNEG_ALWAYS_def bindE_def not_less)

theorem spring_realizeParameters_value_check_witness:
  "Modeled \<le> getStage exampleNegativeLengthState
   \<and> TwoPointSpring_realizeParameters exampleSpring exampleNegativeLengthState
      = Inl (ValueWasNegative ''naturalLength'' (- 1) ''TwoPointSpring::realizeParameters()'')"
proof -
  have h: "Modeled \<le> getStage exampleNegativeLengthState"
    by (simp add: exampleNegativeLengthState_def exampleState_def stage_simps)
  show ?thesis
    using h spring_realizeParameters_value_check [OF h, of exampleSpring]
    by (simp add: getStiffness_def getNaturalLength_def getParameters_def
        exampleNegativeLengthState_def exampleSpringParameters_def)
qed

section \<open>Gravity: the short circuit\<close>

text \<open>
  C5. When gravity is disabled, or its cached magnitude is zero, the Dynamics hook does
  nothing but its stage check: at stage Moving or later it returns the very state it was
  given, whatever the gravity vector, the matter subsystems and the accumulators are;
  below Moving it raises the stage error.
\<close>

theorem gravity_realizeDynamics_short_circuit:
  "\<not> isEnabled rep s \<or> getGravityMagnitude rep s = 0 \<Longrightarrow>
   UniformGravity_realizeDynamics rep s =
    (if getStage s < Moving
     then Inl (StageTooLow (getStage s) Moving ''UniformGravity::realizeDynamics()'')
     else Inr s)"
  by (auto simp add: UniformGravity_realizeDynamics_def SimTK_STAGECHECK_GE_ALWAYS_def bindE_def)

theorem gravity_realizeDynamics_short_circuit_witness:
  "\<not> isEnabled exampleGravity exampleDisabledState
   \<and> UniformGravity_realizeDynamics exampleGravity exampleDisabledState = Inr exampleDisabledState"
proof -
  have h: "\<not> isEnabled exampleGravity exampleDisabledState"
    by (simp add: isEnabled_def getGravityParameters_def exampleDisabledState_def
        exampleGravityParameters_def)
  have st: "\<not> getStage exampleDisabledState < Moving"
    by (simp add: exampleDisabledState_def exampleState_def stage_simps)
  show ?thesis
    using h st gravity_realizeDynamics_short_circuit [of exampleGravity exampleDisabledState]
    by simp
qed

section \<open>The spring's Configuration and Dynamics hooks\<close>

lemma vsub_as_vadd_vneg: "vsub a b = vadd a (vneg b)"
  by (cases a; cases b) simp

lemma cross_vneg: "cross a (vneg b) = vneg (cross a b)"
  by (cases a; cases b) simp

lemma sv_sub_spatialForce:
  "sv_sub a (SpatialVec (cross st f) f) = sv_add a (spatialForce st (vneg f))"
  by (cases a) (simp add: spatialForce_def vsub_as_vadd_vneg cross_vneg)

lemma spring_dynamics_ok:
  "springDynamicsOK rep s \<Longrightarrow> TwoPointSpring_realizeDynamics rep s = Inr (springDynamicsResult rep s)"
  unfolding TwoPointSpring_realizeDynamics_def springDynamicsOK_def springDynamicsResult_def
    springBodyForces_def springForce1_def springMobilityForces_def addBodyForce_def
  by (auto simp add: SimTK_STAGECHECK_GE_ALWAYS_def bindE_def getMatterSubsystem_def element_at_def
      int_index_def vector_sub_scaled_def Let_def sv_sub_spatialForce spatialForce_def not_less
      split: if_splits)

lemma spring_dynamics_fail:
  "\<not> springDynamicsOK rep s \<Longrightarrow> \<exists>e. TwoPointSpring_realizeDynamics rep s = Inl e"
  unfolding TwoPointSpring_realizeDynamics_def springDynamicsOK_def
  by (auto simp add: SimTK_STAGECHECK_GE_ALWAYS_def bindE_def getMatterSubsystem_def element_at_def
      int_index_def vector_sub_scaled_def Let_def not_less
      split: if_splits)

lemma spring_dynamics_Inr_iff:
  "TwoPointSpring_realizeDynamics rep s = Inr s' \<longleftrightarrow>
     springDynamicsOK rep s \<and> s' = springDynamicsResult rep s"
  using spring_dynamics_ok[of rep s] spring_dynamics_fail[of rep s] by (cases "springDynamicsOK rep s") auto


lemma springDynamicsResult_fields:
  "rigidBodyForces (springDynamicsResult rep s) = (rigidBodyForces s)
      [0 := springBodyForces rep (getConfigurationCache rep s) (rigidBodyForces s ! 0)]"
  "particleForces (springDynamicsResult rep s) = particleForces s"
  "mobilityForces (springDynamicsResult rep s) = (mobilityForces s)
      [0 := springMobilityForces (getDamping rep s) (getU (matterSubsystems s ! 0))
              (mobilityForces s ! 0)]"
  "potentialEnergy (springDynamicsResult rep s) = potentialEnergy s + cc_pe (getConfigurationCache rep s)"
  "getStage (springDynamicsResult rep s) = getStage s"
  "matterSubsystems (springDynamicsResult rep s) = matterSubsystems s"
  "springParameters (springDynamicsResult rep s) = springParameters s"
  "springConfigurationCache (springDynamicsResult rep s) = springConfigurationCache s"
  "gravityParameters (springDynamicsResult rep s) = gravityParameters s"
  "gravityParameterCache (springDynamicsResult rep s) = gravityParameterCache s"
  "springDynamicsCache (springDynamicsResult rep s) =
     (springDynamicsCache s)(spring_index rep := \<lparr>dc_f1_G = springForce1 (getConfigurationCache rep s)\<rparr>)"
  by (simp_all add: springDynamicsResult_def updDynamicsCache_def)

lemma updDamping_reads:
  "getDamping rep (updDamping rep d s) = d"
  "getConfigurationCache rep (updDamping rep d s) = getConfigurationCache rep s"
  "getStage (updDamping rep d s) = getStage s"
  "matterSubsystems (updDamping rep d s) = matterSubsystems s"
  "rigidBodyForces (updDamping rep d s) = rigidBodyForces s"
  "particleForces (updDamping rep d s) = particleForces s"
  "mobilityForces (updDamping rep d s) = mobilityForces s"
  "potentialEnergy (updDamping rep d s) = potentialEnergy s"
  by (simp_all add: updDamping_def getDamping_def getParameters_def getConfigurationCache_def)

lemma updConfigurationCache_reads:
  "getDamping rep (updConfigurationCache rep cc s) = getDamping rep s"
  "getConfigurationCache rep (updConfigurationCache rep cc s) = cc"
  "getStage (updConfigurationCache rep cc s) = getStage s"
  "matterSubsystems (updConfigurationCache rep cc s) = matterSubsystems s"
  "rigidBodyForces (updConfigurationCache rep cc s) = rigidBodyForces s"
  "particleForces (updConfigurationCache rep cc s) = particleForces s"
  "mobilityForces (updConfigurationCache rep cc s) = mobilityForces s"
  "potentialEnergy (updConfigurationCache rep cc s) = potentialEnergy s"
  by (simp_all add: updConfigurationCache_def getDamping_def getParameters_def getConfigurationCache_def)

lemma spring_configuration_Inr_iff:
  "TwoPointSpring_realizeConfiguration rep s = Inr s' \<longleftrightarrow>
     Timed \<le> getStage s \<and> matterSubsystems s \<noteq> [] \<and>
     s' = updConfigurationCache rep
            (springConfigurationValue rep (getParameters rep s) (matterSubsystems s ! 0)) s"
  unfolding TwoPointSpring_realizeConfiguration_def springConfigurationValue_def
  by (auto simp add: SimTK_STAGECHECK_GE_ALWAYS_def bindE_def getMatterSubsystem_def element_at_def
      Let_def not_less)

lemma nth_take1_append: "xs \<noteq> [] \<Longrightarrow> (take (Suc 0) xs @ ys) ! 0 = xs ! 0"
  by (cases xs) simp_all

lemma example_vnorm: "vnorm (Vec3 0 0 2) = 2"
  by (simp add: vnorm_def)

lemma example_spring_dynamics:
  "TwoPointSpring_realizeDynamics exampleSpring exampleState = Inr exampleAfterSpring"
  by (simp add: spring_dynamics_Inr_iff springDynamicsOK_def springDynamicsResult_def
      springBodyForces_def springForce1_def springMobilityForces_def addBodyForce_def
      spatialForce_def updDynamicsCache_def getConfigurationCache_def getDamping_def
      getParameters_def exampleAfterSpring_def
      exampleState_def exampleSpring_def exampleMatter_def exampleSpringParameters_def
      exampleConfigurationCache_def stage_simps)


lemma example_unconfigured:
  "TwoPointSpring_realizeConfiguration exampleSpring exampleUnconfiguredState
     = Inr (updConfigurationCache exampleSpring exampleConfigurationCache exampleUnconfiguredState)"
  by (simp add: spring_configuration_Inr_iff springConfigurationValue_def
      exampleUnconfiguredState_def
      exampleState_def exampleSpring_def exampleMatter_def exampleSpringParameters_def
      exampleConfigurationCache_def getParameters_def stage_simps example_vnorm Let_def)


text \<open>
  C7. When the spring's Dynamics hook returns, the mobility forces of subsystem 0 are the
  old ones minus damping times \<open>u\<close> if the damping is not zero, and the old ones if it
  is zero. The same hook on the state with the damping set to zero returns too, leaves the
  mobility forces as they were and gives the same body forces, particle forces and
  potential energy. With any other configuration cache (the spring's geometry) the hook,
  when it returns, gives the same mobility forces.
\<close>

theorem spring_damping:
  assumes dyn: "TwoPointSpring_realizeDynamics rep s = Inr s'"
  shows "mobilityForces s' =
           (mobilityForces s)
             [0 := (if getDamping rep s \<noteq> 0
                    then map2 (\<lambda>m u. m - getDamping rep s * u)
                           (mobilityForces s ! 0) (getU (matterSubsystems s ! 0))
                    else mobilityForces s ! 0)]
         \<and> (\<exists>s0. TwoPointSpring_realizeDynamics rep (updDamping rep 0 s) = Inr s0
                \<and> mobilityForces s0 = mobilityForces s
                \<and> rigidBodyForces s0 = rigidBodyForces s'
                \<and> particleForces s0 = particleForces s'
                \<and> potentialEnergy s0 = potentialEnergy s')
         \<and> (\<forall>cc t'. TwoPointSpring_realizeDynamics rep (updConfigurationCache rep cc s) = Inr t'
                \<longrightarrow> mobilityForces t' = mobilityForces s')"
proof -
  from dyn have ok: "springDynamicsOK rep s" and s': "s' = springDynamicsResult rep s"
    by (simp_all add: spring_dynamics_Inr_iff)
  have ok0: "springDynamicsOK rep (updDamping rep 0 s)"
    using ok by (simp add: springDynamicsOK_def updDamping_reads)
  have A: "mobilityForces s' =
           (mobilityForces s)
             [0 := (if getDamping rep s \<noteq> 0
                    then map2 (\<lambda>m u. m - getDamping rep s * u)
                           (mobilityForces s ! 0) (getU (matterSubsystems s ! 0))
                    else mobilityForces s ! 0)]"
    by (simp add: s' springDynamicsResult_fields springMobilityForces_def)
  have B: "\<exists>s0. TwoPointSpring_realizeDynamics rep (updDamping rep 0 s) = Inr s0
                \<and> mobilityForces s0 = mobilityForces s
                \<and> rigidBodyForces s0 = rigidBodyForces s'
                \<and> particleForces s0 = particleForces s'
                \<and> potentialEnergy s0 = potentialEnergy s'"
    using ok0
    by (simp add: spring_dynamics_Inr_iff s' springDynamicsResult_fields updDamping_reads
        springMobilityForces_def)
  have C: "\<forall>cc t'. TwoPointSpring_realizeDynamics rep (updConfigurationCache rep cc s) = Inr t'
                \<longrightarrow> mobilityForces t' = mobilityForces s'"
    by (simp add: spring_dynamics_Inr_iff s' springDynamicsResult_fields updConfigurationCache_reads)
  from A B C show ?thesis by blast
qed


theorem spring_damping_witness:
  "TwoPointSpring_realizeDynamics exampleSpring exampleState = Inr exampleAfterSpring
   \<and> getDamping exampleSpring exampleState = 3
   \<and> mobilityForces exampleAfterSpring = [[7 - 3 * 5], []]"
proof -
  have d: "getDamping exampleSpring exampleState = 3"
    by (simp add: getDamping_def getParameters_def exampleState_def exampleSpringParameters_def)
  have e: "mobilityForces exampleState = [[7], []]" "getU (matterSubsystems exampleState ! 0) = [5]"
    by (simp_all add: exampleState_def exampleMatter_def)
  show ?thesis
    using spring_damping [OF example_spring_dynamics] example_spring_dynamics
    by (simp add: d e)
qed

text \<open>
  C10. The spring's \<^verbatim>\<open>realizeConfiguration\<close> changes no accumulator, and its
  \<^verbatim>\<open>realizeDynamics\<close> leaves the body, particle and mobility force buffers of every
  matter subsystem but the first as they were. Both read the kinematics of the first
  matter subsystem only: with the other matter subsystems replaced by any others, they
  return the same state (apart from that replacement).
\<close>

theorem spring_matter_subsystem_0_only:
  "(\<forall>s'. TwoPointSpring_realizeConfiguration rep s = Inr s' \<longrightarrow>
       accumulators s' = accumulators s \<and>
       TwoPointSpring_realizeConfiguration rep
           (s\<lparr>matterSubsystems := take 1 (matterSubsystems s) @ others\<rparr>)
         = Inr (s'\<lparr>matterSubsystems := take 1 (matterSubsystems s) @ others\<rparr>))
   \<and> (\<forall>s'. TwoPointSpring_realizeDynamics rep s = Inr s' \<longrightarrow>
       drop 1 (rigidBodyForces s') = drop 1 (rigidBodyForces s) \<and>
       drop 1 (particleForces s') = drop 1 (particleForces s) \<and>
       drop 1 (mobilityForces s') = drop 1 (mobilityForces s) \<and>
       TwoPointSpring_realizeDynamics rep
           (s\<lparr>matterSubsystems := take 1 (matterSubsystems s) @ others\<rparr>)
         = Inr (s'\<lparr>matterSubsystems := take 1 (matterSubsystems s) @ others\<rparr>))"
proof (intro conjI allI impI)
  fix s'
  assume "TwoPointSpring_realizeConfiguration rep s = Inr s'"
  then have st: "Timed \<le> getStage s" and ne: "matterSubsystems s \<noteq> []"
    and s': "s' = updConfigurationCache rep
            (springConfigurationValue rep (getParameters rep s) (matterSubsystems s ! 0)) s"
    by (simp_all add: spring_configuration_Inr_iff)
  show "accumulators s' = accumulators s"
    by (simp add: s' accumulators_def updConfigurationCache_reads)
  show "TwoPointSpring_realizeConfiguration rep
           (s\<lparr>matterSubsystems := take 1 (matterSubsystems s) @ others\<rparr>)
         = Inr (s'\<lparr>matterSubsystems := take 1 (matterSubsystems s) @ others\<rparr>)"
    using st ne
    by (simp add: spring_configuration_Inr_iff s' nth_take1_append getParameters_def
        updConfigurationCache_def)
next
  fix s'
  assume "TwoPointSpring_realizeDynamics rep s = Inr s'"
  then have ok: "springDynamicsOK rep s" and s': "s' = springDynamicsResult rep s"
    by (simp_all add: spring_dynamics_Inr_iff)
  show "drop 1 (rigidBodyForces s') = drop 1 (rigidBodyForces s)"
    by (simp add: s' springDynamicsResult_fields)
  show "drop 1 (particleForces s') = drop 1 (particleForces s)"
    by (simp add: s' springDynamicsResult_fields)
  show "drop 1 (mobilityForces s') = drop 1 (mobilityForces s)"
    by (simp add: s' springDynamicsResult_fields)
  have ne: "matterSubsystems s \<noteq> []"
    using ok by (simp add: springDynamicsOK_def)
  show "TwoPointSpring_realizeDynamics rep
           (s\<lparr>matterSubsystems := take 1 (matterSubsystems s) @ others\<rparr>)
         = Inr (s'\<lparr>matterSubsystems := take 1 (matterSubsystems s) @ others\<rparr>)"
    using ok ne
    by (auto simp add: spring_dynamics_Inr_iff s' springDynamicsOK_def springDynamicsResult_def
        nth_take1_append getDamping_def getParameters_def getConfigurationCache_def
        updDynamicsCache_def split: if_splits)
qed

theorem spring_matter_subsystem_0_only_witness:
  "TwoPointSpring_realizeDynamics exampleSpring exampleState = Inr exampleAfterSpring
   \<and> drop 1 (rigidBodyForces exampleAfterSpring) = drop 1 (rigidBodyForces exampleState)
   \<and> drop 1 (particleForces exampleAfterSpring) = drop 1 (particleForces exampleState)
   \<and> drop 1 (mobilityForces exampleAfterSpring) = drop 1 (mobilityForces exampleState)"
  using spring_matter_subsystem_0_only [of exampleSpring exampleState "[]"] example_spring_dynamics
  by simp

section \<open>Gravity's Dynamics hook\<close>

lemma particleLoop_length: "length (particleLoop g m n pf) = length pf"
  by (induction n) (simp_all add: Let_def)

lemma particleLoop_nth:
  "n \<le> length pf \<Longrightarrow> i < length pf \<Longrightarrow>
   particleLoop g m n pf ! i = (if i < n then vadd (pf ! i) (vscale (m i) g) else pf ! i)"
  by (induction n) (auto simp add: Let_def particleLoop_length nth_list_update less_Suc_eq)

lemma particleLoop_all:
  "particleLoop g (getParticleMasses matter) (length pf) pf = gravityParticleForces g matter pf"
  by (rule nth_equalityI)
     (simp_all add: gravityParticleForces_def particleLoop_length particleLoop_nth)

lemma bodyLoop_Suc:
  "fst (bodyLoop g gh0 matter (Suc n) acc) =
     (fst (bodyLoop g gh0 matter n acc))
       [n := sv_add (fst (bodyLoop g gh0 matter n acc) ! n) (bodyGravityForce g matter n)]"
  "snd (bodyLoop g gh0 matter (Suc n) acc) =
     snd (bodyLoop g gh0 matter n acc) + bodyPotentialEnergy g gh0 matter n"
  by (simp_all add: case_prod_beta)

lemma bodyLoop_length: "length (fst (bodyLoop g gh0 matter n (rbf, pe))) = length rbf"
  by (induction n) (simp_all add: bodyLoop_Suc del: bodyLoop.simps(2))

lemma bodyLoop_nth:
  "n \<le> length rbf \<Longrightarrow> i < length rbf \<Longrightarrow>
   fst (bodyLoop g gh0 matter n (rbf, pe)) ! i =
     (if i < n then sv_add (rbf ! i) (bodyGravityForce g matter i) else rbf ! i)"
  by (induction n)
     (auto simp add: bodyLoop_Suc bodyLoop_length nth_list_update less_Suc_eq
        simp del: bodyLoop.simps(2))

lemma bodyLoop_energy:
  "snd (bodyLoop g gh0 matter n (rbf, pe)) = pe + (\<Sum>i<n. bodyPotentialEnergy g gh0 matter i)"
  by (induction n) (simp_all add: bodyLoop_Suc del: bodyLoop.simps(2))

lemma bodyLoop_all:
  "bodyLoop g gh0 matter (length rbf) (rbf, pe) =
     (gravityBodyForces g matter rbf,
      pe + (\<Sum>i<length rbf. bodyPotentialEnergy g gh0 matter i))"
proof (rule prod_eqI)
  show "fst (bodyLoop g gh0 matter (length rbf) (rbf, pe)) =
        fst (gravityBodyForces g matter rbf,
             pe + (\<Sum>i<length rbf. bodyPotentialEnergy g gh0 matter i))"
    by (rule nth_equalityI) (simp_all add: gravityBodyForces_def bodyLoop_length bodyLoop_nth)
  show "snd (bodyLoop g gh0 matter (length rbf) (rbf, pe)) =
        snd (gravityBodyForces g matter rbf,
             pe + (\<Sum>i<length rbf. bodyPotentialEnergy g gh0 matter i))"
    by (simp add: bodyLoop_energy)
qed

lemma gravityOnSubsystem_Inr_iff:
  "gravityOnSubsystem g gh0 k s = Inr s' \<longleftrightarrow>
     subsystemOK k s \<and>
     s' = s\<lparr>rigidBodyForces := (rigidBodyForces s)
               [k := gravityBodyForces g (matterSubsystems s ! k) (rigidBodyForces s ! k)],
            particleForces := (particleForces s)
               [k := gravityParticleForces g (matterSubsystems s ! k) (particleForces s ! k)],
            potentialEnergy := potentialEnergy s + gravityEnergy g gh0 (matterSubsystems s ! k)\<rparr>"
proof (cases "subsystemOK k s")
  case False
  then show ?thesis
    by (auto simp add: gravityOnSubsystem_def subsystemOK_def bindE_def getMatterSubsystem_def
        element_at_def Let_def split: prod.splits)
next
  case True
  then have k: "k < length (matterSubsystems s)" "k < length (rigidBodyForces s)"
      "k < length (particleForces s)"
    and lb: "getNBodies (matterSubsystems s ! k) = length (rigidBodyForces s ! k)"
    and lp: "getNParticles (matterSubsystems s ! k) = length (particleForces s ! k)"
    by (simp_all add: subsystemOK_def)
  have p0: "gravityParticleForces g (matterSubsystems s ! k) [] = []"
    by (simp add: gravityParticleForces_def)
  show ?thesis
    using True k
    by (auto simp add: gravityOnSubsystem_def bindE_def getMatterSubsystem_def element_at_def
        Let_def lb lp p0 bodyLoop_all particleLoop_all gravityEnergy_def)
qed


lemma bindE_Inr_iff: "bindE c k = Inr y \<longleftrightarrow> (\<exists>v. c = Inr v \<and> k v = Inr y)"
  by (cases c) (simp_all add: bindE_def)

lemma gravityResult_0: "gravityResult g gh0 0 s = s"
  by (simp add: gravityResult_def map_nth)

lemma gravityResult_fields:
  "getStage (gravityResult g gh0 n s) = getStage s"
  "matterSubsystems (gravityResult g gh0 n s) = matterSubsystems s"
  "mobilityForces (gravityResult g gh0 n s) = mobilityForces s"
  "springParameters (gravityResult g gh0 n s) = springParameters s"
  "springConfigurationCache (gravityResult g gh0 n s) = springConfigurationCache s"
  "springDynamicsCache (gravityResult g gh0 n s) = springDynamicsCache s"
  "gravityParameters (gravityResult g gh0 n s) = gravityParameters s"
  "gravityParameterCache (gravityResult g gh0 n s) = gravityParameterCache s"
  "length (rigidBodyForces (gravityResult g gh0 n s)) = length (rigidBodyForces s)"
  "length (particleForces (gravityResult g gh0 n s)) = length (particleForces s)"
  "potentialEnergy (gravityResult g gh0 n s) =
     potentialEnergy s + (\<Sum>k<n. gravityEnergy g gh0 (matterSubsystems s ! k))"
  by (simp_all add: gravityResult_def)

lemma gravityResult_nth:
  "k < length (rigidBodyForces s) \<Longrightarrow>
   rigidBodyForces (gravityResult g gh0 n s) ! k =
     (if k < n then gravityBodyForces g (matterSubsystems s ! k) (rigidBodyForces s ! k)
      else rigidBodyForces s ! k)"
  "k < length (particleForces s) \<Longrightarrow>
   particleForces (gravityResult g gh0 n s) ! k =
     (if k < n then gravityParticleForces g (matterSubsystems s ! k) (particleForces s ! k)
      else particleForces s ! k)"
  by (simp_all add: gravityResult_def)

lemma subsystemOK_gravityResult:
  "subsystemOK n (gravityResult g gh0 n s) \<longleftrightarrow> subsystemOK n s"
  by (auto simp add: subsystemOK_def gravityResult_fields gravityResult_nth)

lemma map_upt_update:
  "n < L \<Longrightarrow> (map f [0..<L])[n := y] = map (\<lambda>k. if k = n then y else f k) [0..<L]"
  by (rule nth_equalityI) (simp_all add: nth_list_update)

lemma gravityResult_Suc:
  assumes "subsystemOK n s"
  shows "(gravityResult g gh0 n s)
           \<lparr>rigidBodyForces := (rigidBodyForces (gravityResult g gh0 n s))
               [n := gravityBodyForces g (matterSubsystems (gravityResult g gh0 n s) ! n)
                       (rigidBodyForces (gravityResult g gh0 n s) ! n)],
            particleForces := (particleForces (gravityResult g gh0 n s))
               [n := gravityParticleForces g (matterSubsystems (gravityResult g gh0 n s) ! n)
                       (particleForces (gravityResult g gh0 n s) ! n)],
            potentialEnergy := potentialEnergy (gravityResult g gh0 n s)
               + gravityEnergy g gh0 (matterSubsystems (gravityResult g gh0 n s) ! n)\<rparr>
         = gravityResult g gh0 (Suc n) s"
proof -
  from assms have n: "n < length (rigidBodyForces s)" "n < length (particleForces s)"
    by (simp_all add: subsystemOK_def)
  show ?thesis
    unfolding gravityResult_fields gravityResult_nth(1)[OF n(1)] gravityResult_nth(2)[OF n(2)]
    using n
    by (simp add: gravityResult_def map_upt_update less_Suc_eq cong: if_cong)
qed

lemma matterLoop_Inr_iff:
  "matterLoop g gh0 n s = Inr s' \<longleftrightarrow>
     (\<forall>k<n. subsystemOK k s) \<and> s' = gravityResult g gh0 n s"
proof (induction n arbitrary: s')
  case 0
  show ?case by (auto simp add: gravityResult_0)
next
  case (Suc n)
  show ?case
    by (auto simp add: bindE_Inr_iff Suc.IH gravityOnSubsystem_Inr_iff subsystemOK_gravityResult
        gravityResult_Suc less_Suc_eq)
qed


lemma gravity_dynamics_Inr_iff:
  "UniformGravity_realizeDynamics rep s = Inr s' \<longleftrightarrow>
     gravityDynamicsOK rep s \<and> s' = gravityDynamicsResult rep s"
  by (auto simp add: UniformGravity_realizeDynamics_def gravityDynamicsOK_def
      gravityDynamicsResult_def SimTK_STAGECHECK_GE_ALWAYS_def bindE_def Let_def
      getNMatterSubsystems_def matterLoop_Inr_iff not_less)

lemma example_gravity_reads:
  "getGravity exampleGravity exampleState = Vec3 0 0 (- 2)"
  "getZeroHeight exampleGravity exampleState = 1"
  "isEnabled exampleGravity exampleState"
  "getGravityMagnitude exampleGravity exampleState = 2"
  by (simp_all add: getGravity_def getZeroHeight_def isEnabled_def getGravityMagnitude_def
      getGravityParameters_def getParameterCache_def exampleState_def exampleGravityParameters_def)

lemma upt_2: "[0..<2] = [0, 1]" "[0..<1] = [0]" "[0..<Suc (Suc 0)] = [0, Suc 0]"
  by (simp_all add: upt_rec)

lemma example_gravity_dynamics:
  "UniformGravity_realizeDynamics exampleGravity exampleState = Inr exampleAfterGravity"
  unfolding gravity_dynamics_Inr_iff gravityDynamicsOK_def gravityDynamicsResult_def
  by (simp add: getGravity_def getZeroHeight_def isEnabled_def getGravityMagnitude_def
      getGravityParameters_def getParameterCache_def exampleGravityParameters_def
      gravityResult_def gravityBodyForces_def gravityParticleForces_def
      gravityEnergy_def bodyGravityForce_def bodyPotentialEnergy_def subsystemOK_def
      exampleAfterGravity_def exampleState_def exampleMatter_def exampleMatter2_def
      stage_simps less_Suc_eq upt_2 numeral_2_eq_2)


text \<open>
  C3, as stated, fails: the hook tests and uses the cached magnitude, not the norm of the
  gravity vector. With gravity enabled, the vector \<open>(0, 0, -2)\<close> and a cached magnitude
  of 0 the hook returns the state it was given: the force of particle 0 stays
  \<open>(1, 0, 0)\<close>, where its mass times the vector added would give \<open>(1, 0, -6)\<close>.
\<close>

theorem gravity_reads_cached_magnitude:
  "isEnabled exampleGravity exampleZeroMagnitudeState
   \<and> getGravity exampleGravity exampleZeroMagnitudeState = Vec3 0 0 (- 2)
   \<and> UniformGravity_realizeDynamics exampleGravity exampleZeroMagnitudeState
       = Inr exampleZeroMagnitudeState
   \<and> particleForces exampleZeroMagnitudeState ! 0 ! 0 = Vec3 1 0 0
   \<and> vadd (particleForces exampleZeroMagnitudeState ! 0 ! 0)
         (vscale (getParticleMasses (matterSubsystems exampleZeroMagnitudeState ! 0) 0)
            (getGravity exampleGravity exampleZeroMagnitudeState)) = Vec3 1 0 (- 6)
   \<and> Vec3 1 0 0 \<noteq> Vec3 1 0 (- 6)"
  by (simp add: UniformGravity_realizeDynamics_def SimTK_STAGECHECK_GE_ALWAYS_def bindE_def
      isEnabled_def getGravity_def getGravityMagnitude_def getGravityParameters_def
      getParameterCache_def exampleZeroMagnitudeState_def exampleState_def
      exampleGravityParameters_def exampleMatter_def stage_simps)

lemma example_gravity7_reads:
  "getGravity exampleGravity exampleMagnitude7State = Vec3 0 0 (- 2)"
  "getZeroHeight exampleGravity exampleMagnitude7State = 1"
  "isEnabled exampleGravity exampleMagnitude7State"
  "getGravityMagnitude exampleGravity exampleMagnitude7State = 7"
  by (simp_all add: getGravity_def getZeroHeight_def isEnabled_def getGravityMagnitude_def
      getGravityParameters_def getParameterCache_def exampleMagnitude7State_def exampleState_def
      exampleGravityParameters_def)

lemma example_gravity7_dynamics:
  "UniformGravity_realizeDynamics exampleGravity exampleMagnitude7State = Inr exampleAfterGravity7"
  unfolding gravity_dynamics_Inr_iff gravityDynamicsOK_def gravityDynamicsResult_def
  by (simp add: getGravity_def getZeroHeight_def isEnabled_def getGravityMagnitude_def
      getGravityParameters_def getParameterCache_def exampleGravityParameters_def
      gravityResult_def gravityBodyForces_def gravityParticleForces_def
      gravityEnergy_def bodyGravityForce_def bodyPotentialEnergy_def subsystemOK_def
      exampleAfterGravity7_def exampleMagnitude7State_def exampleState_def exampleMatter_def
      exampleMatter2_def stage_simps less_Suc_eq upt_2 numeral_2_eq_2)

text \<open>
  C3, amended. Let gravity be enabled and its cached magnitude \<open>gMagnitude\<close> not zero; let
  \<open>g\<close> be the gravity vector. The Dynamics hook returns exactly when the stage is at
  least Moving and the buffers of every matter subsystem have the subsystem's sizes. When
  it returns, then in every matter subsystem of the system every particle's force has
  grown by its mass times \<open>g\<close>, and every body's slot by the spatial force
  \<open>(com_B_G \<times> (m g), m g)\<close>; the potential energy has grown by the sum, over all
  bodies of all matter subsystems, of \<open>m (g \<cdot> com_G - gMagnitude h0)\<close>; the mobility
  forces are as they were.
\<close>

theorem gravity_forces_and_energy:
  fixes rep s s'
  defines "g \<equiv> getGravity rep s"
  defines "gMagnitude \<equiv> getGravityMagnitude rep s"
  defines "h0 \<equiv> getZeroHeight rep s"
  defines "matter \<equiv> \<lambda>msub. matterSubsystems s ! msub"
  defines "mass \<equiv> \<lambda>msub i. getBodyMass (matter msub) (int i)"
  defines "com_B_G \<equiv> \<lambda>msub i. rot_apply (X_R (getBodyConfiguration (matter msub) (int i)))
                                  (getBodyCenterOfMass (matter msub) (int i))"
  defines "com_G \<equiv> \<lambda>msub i. vadd (X_T (getBodyConfiguration (matter msub) (int i)))
                                (com_B_G msub i)"
  assumes enabled: "isEnabled rep s"
    and nonzero: "gMagnitude \<noteq> 0"
  shows "((\<exists>t. UniformGravity_realizeDynamics rep s = Inr t) =
            (Moving \<le> getStage s \<and> (\<forall>msub<getNMatterSubsystems s. subsystemOK msub s)))
       \<and> (UniformGravity_realizeDynamics rep s = Inr s' \<longrightarrow>
         (\<forall>msub<getNMatterSubsystems s.
            (\<forall>i<getNParticles (matter msub).
               particleForces s' ! msub ! i =
                 vadd (particleForces s ! msub ! i) (vscale (getParticleMasses (matter msub) i) g)) \<and>
            (\<forall>i<getNBodies (matter msub).
               rigidBodyForces s' ! msub ! i =
                 sv_add (rigidBodyForces s ! msub ! i)
                   (SpatialVec (cross (com_B_G msub i) (vscale (mass msub i) g))
                               (vscale (mass msub i) g))))
       \<and> potentialEnergy s' =
           potentialEnergy s +
           (\<Sum>msub<getNMatterSubsystems s. \<Sum>i<getNBodies (matter msub).
               mass msub i * (dot g (com_G msub i) - gMagnitude * h0))
       \<and> mobilityForces s' = mobilityForces s)"
proof (intro conjI impI)
  show "(\<exists>t. UniformGravity_realizeDynamics rep s = Inr t) =
          (Moving \<le> getStage s \<and> (\<forall>msub<getNMatterSubsystems s. subsystemOK msub s))"
    using enabled nonzero
    by (simp add: gravity_dynamics_Inr_iff gravityDynamicsOK_def gMagnitude_def
        getNMatterSubsystems_def)
next
  assume dyn: "UniformGravity_realizeDynamics rep s = Inr s'"
  from dyn have ok: "\<forall>k<length (matterSubsystems s). subsystemOK k s"
    and s': "s' = gravityResult g (gMagnitude * h0) (length (matterSubsystems s)) s"
    using enabled nonzero
    by (simp_all add: gravity_dynamics_Inr_iff gravityDynamicsOK_def gravityDynamicsResult_def
        g_def h0_def gMagnitude_def)
  have P: "particleForces s' ! msub ! i =
        vadd (particleForces s ! msub ! i) (vscale (getParticleMasses (matter msub) i) g)"
    if "msub < getNMatterSubsystems s" "i < getNParticles (matter msub)" for msub i
  proof -
    have k: "subsystemOK msub s"
      using ok that(1) by (simp add: getNMatterSubsystems_def)
    then show ?thesis
      using that
      by (simp add: s' gravityResult_nth subsystemOK_def getNMatterSubsystems_def
          gravityParticleForces_def matter_def)
  qed
  have B: "rigidBodyForces s' ! msub ! i =
        sv_add (rigidBodyForces s ! msub ! i)
          (SpatialVec (cross (com_B_G msub i) (vscale (mass msub i) g)) (vscale (mass msub i) g))"
    if "msub < getNMatterSubsystems s" "i < getNBodies (matter msub)" for msub i
  proof -
    have k: "subsystemOK msub s"
      using ok that(1) by (simp add: getNMatterSubsystems_def)
    then show ?thesis
      using that
      by (simp add: s' gravityResult_nth subsystemOK_def getNMatterSubsystems_def
          gravityBodyForces_def bodyGravityForce_def Let_def matter_def mass_def com_B_G_def)
  qed
  have E: "potentialEnergy s' =
           potentialEnergy s +
           (\<Sum>msub<getNMatterSubsystems s. \<Sum>i<getNBodies (matter msub).
               mass msub i * (dot g (com_G msub i) - gMagnitude * h0))"
    by (simp add: s' gravityResult_fields gravityEnergy_def bodyPotentialEnergy_def Let_def
        getNMatterSubsystems_def matter_def mass_def com_G_def com_B_G_def)
  have M: "mobilityForces s' = mobilityForces s"
    by (simp add: s' gravityResult_fields)
  from P B show "\<forall>msub<getNMatterSubsystems s.
            (\<forall>i<getNParticles (matter msub).
               particleForces s' ! msub ! i =
                 vadd (particleForces s ! msub ! i) (vscale (getParticleMasses (matter msub) i) g)) \<and>
            (\<forall>i<getNBodies (matter msub).
               rigidBodyForces s' ! msub ! i =
                 sv_add (rigidBodyForces s ! msub ! i)
                   (SpatialVec (cross (com_B_G msub i) (vscale (mass msub i) g))
                               (vscale (mass msub i) g)))"
    by blast
  from E show "potentialEnergy s' =
           potentialEnergy s +
           (\<Sum>msub<getNMatterSubsystems s. \<Sum>i<getNBodies (matter msub).
               mass msub i * (dot g (com_G msub i) - gMagnitude * h0))" .
  from M show "mobilityForces s' = mobilityForces s" .
qed

theorem gravity_forces_and_energy_witness:
  "UniformGravity_realizeDynamics exampleGravity exampleMagnitude7State = Inr exampleAfterGravity7
   \<and> isEnabled exampleGravity exampleMagnitude7State
   \<and> getGravityMagnitude exampleGravity exampleMagnitude7State = 7
   \<and> particleForces exampleAfterGravity7 ! 1 ! 0 = Vec3 0 1 (- 14)
   \<and> rigidBodyForces exampleAfterGravity7 ! 0 ! 1 = SpatialVec (Vec3 0 4 0) (Vec3 0 0 (- 4))
   \<and> potentialEnergy exampleAfterGravity7 = potentialEnergy exampleMagnitude7State - 111"
proof -
  have en: "isEnabled exampleGravity exampleMagnitude7State"
    by (rule example_gravity7_reads)
  have nz: "getGravityMagnitude exampleGravity exampleMagnitude7State \<noteq> 0"
    by (simp add: example_gravity7_reads)
  have ms: "getNMatterSubsystems exampleMagnitude7State = 2"
    "matterSubsystems exampleMagnitude7State ! 0 = exampleMatter"
    "matterSubsystems exampleMagnitude7State ! 1 = exampleMatter2"
    "matterSubsystems exampleMagnitude7State ! Suc 0 = exampleMatter2"
    by (simp_all add: getNMatterSubsystems_def exampleMagnitude7State_def exampleState_def)
  have counts: "getNBodies exampleMatter = 2" "getNBodies exampleMatter2 = 1"
    "getNParticles exampleMatter2 = 1"
    by (simp_all add: exampleMatter_def exampleMatter2_def)
  note inst = gravity_forces_and_energy [OF en nz, of exampleAfterGravity7, THEN conjunct2, rule_format,
      OF example_gravity7_dynamics, unfolded ms example_gravity7_reads]
  have p: "particleForces exampleAfterGravity7 ! 1 ! 0 = Vec3 0 1 (- 14)"
    using inst [THEN conjunct1, rule_format, of 1, THEN conjunct1, rule_format, of 0]
    by (simp add: ms counts exampleMagnitude7State_def exampleState_def exampleMatter2_def)
  have b: "rigidBodyForces exampleAfterGravity7 ! 0 ! 1 = SpatialVec (Vec3 0 4 0) (Vec3 0 0 (- 4))"
    using inst [THEN conjunct1, rule_format, of 0, THEN conjunct2, rule_format, of 1]
    by (simp add: ms counts exampleMagnitude7State_def exampleState_def exampleMatter_def)
  have e: "potentialEnergy exampleAfterGravity7 = potentialEnergy exampleMagnitude7State - 111"
    using inst [THEN conjunct2, THEN conjunct1]
    by (simp add: ms counts exampleMatter_def exampleMatter2_def numeral_2_eq_2)
  from example_gravity7_dynamics en example_gravity7_reads(4) p b e show ?thesis
    by blast
qed

section \<open>Sums of accumulators\<close>

lemma vadd_assoc: "vadd (vadd a b) c = vadd a (vadd b c)"
  by (cases a; cases b; cases c) simp
lemma vadd_commute: "vadd a b = vadd b a"
  by (cases a; cases b) simp
lemma vadd_zero: "vadd a (Vec3 0 0 0) = a" "vadd (Vec3 0 0 0) a = a"
  by (cases a; simp)+
lemma sv_add_assoc: "sv_add (sv_add a b) c = sv_add a (sv_add b c)"
  by (cases a; cases b; cases c) (simp add: vadd_assoc)
lemma sv_add_commute: "sv_add a b = sv_add b a"
  by (cases a; cases b) (simp add: vadd_commute)
lemma sv_add_zero: "sv_add a (SpatialVec (Vec3 0 0 0) (Vec3 0 0 0)) = a"
   "sv_add (SpatialVec (Vec3 0 0 0) (Vec3 0 0 0)) a = a"
  by (cases a; simp add: vadd_zero)+

lemma map2_right_commute:
  assumes "\<And>x y z. f (f x y) z = f (f x z) y"
  shows "map2 f (map2 f xs ys) zs = map2 f (map2 f xs zs) ys"
proof (induction xs arbitrary: ys zs)
  case Nil
  show ?case by simp
next
  case (Cons x xs)
  show ?case
    by (cases ys; cases zs) (simp_all add: assms Cons.IH)
qed

lemma acc_add_right_commute: "acc_add (acc_add a b) c = acc_add (acc_add a c) b"
proof -
  have v: "vadd (vadd x y) z = vadd (vadd x z) y" for x y z
    by (cases x; cases y; cases z) simp
  have sv: "sv_add (sv_add x y) z = sv_add (sv_add x z) y" for x y z
    by (cases x; cases y; cases z) (simp add: v)
  have r: "(x + y) + z = (x + z) + y" for x y z :: real
    by simp
  obtain r1 p1 m1 e1 where a: "a = (r1, p1, m1, e1)" by (cases a)
  obtain r2 p2 m2 e2 where b: "b = (r2, p2, m2, e2)" by (cases b)
  obtain r3 p3 m3 e3 where c: "c = (r3, p3, m3, e3)" by (cases c)
  have 1: "map2 (map2 sv_add) (map2 (map2 sv_add) r1 r2) r3
         = map2 (map2 sv_add) (map2 (map2 sv_add) r1 r3) r2"
    by (rule map2_right_commute) (rule map2_right_commute, rule sv)
  have 2: "map2 (map2 vadd) (map2 (map2 vadd) p1 p2) p3
         = map2 (map2 vadd) (map2 (map2 vadd) p1 p3) p2"
    by (rule map2_right_commute) (rule map2_right_commute, rule v)
  have 3: "map2 (map2 (+)) (map2 (map2 (+)) m1 m2) m3
         = map2 (map2 (+)) (map2 (map2 (+)) m1 m3) m2"
    by (rule map2_right_commute) (rule map2_right_commute, rule r)
  show ?thesis
    unfolding a b c acc_add.simps by (simp only: 1 2 3 r)
qed

lemma map2_zeros:
  assumes "\<And>x. f x z = x"
  shows "map2 f xs (map (\<lambda>_. z) xs) = xs"
  by (induction xs) (simp_all add: assms)

lemma map2_map2_zeros:
  assumes "\<And>x. f x z = x"
  shows "map2 (map2 f) xss (map (map (\<lambda>_. z)) xss) = xss"
  by (induction xss) (simp_all add: assms map2_zeros)

lemma acc_add_zeroed: "acc_add (accumulators s) (accumulators (zeroed s)) = accumulators s"
  by (simp add: accumulators_def zeroed_def map2_map2_zeros sv_add_zero vadd_zero)


section \<open>The Dynamics hooks read their inputs only\<close>

lemma realizeDynamics_Inr_iff:
  "realizeDynamics e s = Inr s' \<longleftrightarrow> dynamicsOK e s \<and> s' = dynamicsResult e s"
  by (cases e) (simp_all add: spring_dynamics_Inr_iff gravity_dynamics_Inr_iff)

lemma realizeDynamics_fail: "\<not> dynamicsOK e s \<Longrightarrow> \<exists>err. realizeDynamics e s = Inl err"
  using realizeDynamics_Inr_iff[of e s] by (cases "realizeDynamics e s") auto

lemma map_length_eqD:
  assumes "map length xs = map length ys"
  shows "length xs = length ys" and "i < length xs \<Longrightarrow> length (xs ! i) = length (ys ! i)"
proof -
  show l: "length xs = length ys"
    using assms by (metis length_map)
  show "length (xs ! i) = length (ys ! i)" if "i < length xs"
    using assms that l by (metis nth_map)
qed

lemma map_length_Nil_iff:
  "map length xs = map length ys \<Longrightarrow> (xs = []) = (ys = [])"
  by (cases xs; cases ys) simp_all

lemma map_length_hd:
  "map length xs = map length ys \<Longrightarrow> xs \<noteq> [] \<Longrightarrow> length (xs ! 0) = length (ys ! 0)"
  by (cases xs; cases ys) simp_all

lemma sameInputs_refl: "sameInputs s s"
  by (simp add: sameInputs_def)

lemma sameInputs_trans: "sameInputs s t \<Longrightarrow> sameInputs t u \<Longrightarrow> sameInputs s u"
  by (simp add: sameInputs_def)

lemma zeroed_fields:
  "getStage (zeroed s) = getStage s"
  "matterSubsystems (zeroed s) = matterSubsystems s"
  "springParameters (zeroed s) = springParameters s"
  "springConfigurationCache (zeroed s) = springConfigurationCache s"
  "springDynamicsCache (zeroed s) = springDynamicsCache s"
  "gravityParameters (zeroed s) = gravityParameters s"
  "gravityParameterCache (zeroed s) = gravityParameterCache s"
  "rigidBodyForces (zeroed s) = map (map (\<lambda>_. SpatialVec (Vec3 0 0 0) (Vec3 0 0 0))) (rigidBodyForces s)"
  "particleForces (zeroed s) = map (map (\<lambda>_. Vec3 0 0 0)) (particleForces s)"
  "mobilityForces (zeroed s) = map (map (\<lambda>_. 0)) (mobilityForces s)"
  "potentialEnergy (zeroed s) = 0"
  by (simp_all add: zeroed_def)

lemma sameInputs_zeroed: "sameInputs s (zeroed s)"
  by (simp add: sameInputs_def zeroed_fields comp_def)

lemma map_map_const_cong:
  "map length xs = map length ys \<Longrightarrow> map (map (\<lambda>_. c)) xs = map (map (\<lambda>_. c)) ys"
proof (induction xs arbitrary: ys)
  case Nil
  then show ?case by simp
next
  case (Cons x xs)
  then obtain y ys' where ys: "ys = y # ys'" by (cases ys) auto
  from Cons.prems have "length x = length y" and "map length xs = map length ys'"
    by (simp_all add: ys)
  then show ?case
    using Cons.IH[of ys'] by (simp add: ys map_replicate_const)
qed

lemma zeroed_sameInputs:
  assumes a: "sameInputs s t"
  shows "zeroed t = (zeroed s)\<lparr>springDynamicsCache := springDynamicsCache t\<rparr>"
proof -
  have 1: "map (map (\<lambda>_. SpatialVec (Vec3 0 0 0) (Vec3 0 0 0))) (rigidBodyForces t)
         = map (map (\<lambda>_. SpatialVec (Vec3 0 0 0) (Vec3 0 0 0))) (rigidBodyForces s)"
    using a by (intro map_map_const_cong) (simp add: sameInputs_def)
  have 2: "map (map (\<lambda>_. Vec3 0 0 0)) (particleForces t)
         = map (map (\<lambda>_. Vec3 0 0 0)) (particleForces s)"
    using a by (intro map_map_const_cong) (simp add: sameInputs_def)
  have 3: "map (map (\<lambda>_. 0::real)) (mobilityForces t)
         = map (map (\<lambda>_. 0)) (mobilityForces s)"
    using a by (intro map_map_const_cong) (simp add: sameInputs_def)
  show ?thesis
    using a by (intro State.equality) (simp_all add: zeroed_fields 1 2 3 sameInputs_def)
qed


lemma subsystemOK_sameInputs:
  assumes "sameInputs s t"
  shows "subsystemOK k t = subsystemOK k s"
proof -
  from assms have ms: "matterSubsystems t = matterSubsystems s"
    and r: "map length (rigidBodyForces t) = map length (rigidBodyForces s)"
    and p: "map length (particleForces t) = map length (particleForces s)"
    by (simp_all add: sameInputs_def)
  show ?thesis
    using map_length_eqD(1)[OF r] map_length_eqD(1)[OF p]
      map_length_eqD(2)[OF r, of k] map_length_eqD(2)[OF p, of k]
    by (auto simp add: subsystemOK_def ms)
qed

lemma dynamicsOK_sameInputs:
  assumes a: "sameInputs s t"
  shows "dynamicsOK e t = dynamicsOK e s"
proof (cases e)
  case (TwoPointSpring rep)
  from a have eq: "getStage t = getStage s" "matterSubsystems t = matterSubsystems s"
      "springParameters t = springParameters s"
    and r: "map length (rigidBodyForces t) = map length (rigidBodyForces s)"
    and p: "map length (particleForces t) = map length (particleForces s)"
    and m: "map length (mobilityForces t) = map length (mobilityForces s)"
    by (simp_all add: sameInputs_def)
  show ?thesis
    using map_length_Nil_iff[OF r] map_length_Nil_iff[OF p] map_length_Nil_iff[OF m]
      map_length_hd[OF r] map_length_hd[OF p] map_length_hd[OF m]
    by (auto simp add: TwoPointSpring springDynamicsOK_def eq getDamping_def getParameters_def)
next
  case (UniformGravity rep)
  from a have eq: "getStage t = getStage s" "matterSubsystems t = matterSubsystems s"
      "gravityParameters t = gravityParameters s" "gravityParameterCache t = gravityParameterCache s"
    by (simp_all add: sameInputs_def)
  show ?thesis
    by (simp add: UniformGravity gravityDynamicsOK_def eq isEnabled_def getGravityMagnitude_def
        getGravityParameters_def getParameterCache_def subsystemOK_sameInputs[OF a])
qed

lemma length_addBodyForce: "length (addBodyForce b F rbf) = length rbf"
  by (simp add: addBodyForce_def)

lemma length_springBodyForces: "length (springBodyForces rep cc rbf) = length rbf"
  by (simp add: springBodyForces_def length_addBodyForce)

lemma length_gravityBodyForces: "length (gravityBodyForces g matter rbf) = length rbf"
  by (simp add: gravityBodyForces_def)

lemma length_gravityParticleForces: "length (gravityParticleForces g matter pf) = length pf"
  by (simp add: gravityParticleForces_def)

lemma map_length_update:
  "length y = length (xs ! i) \<Longrightarrow> map length (xs[i := y]) = map length xs"
  by (cases "i < length xs") (auto simp add: nth_list_update intro!: nth_equalityI)

lemma sameInputs_dynamicsResult:
  assumes ok: "dynamicsOK e s"
  shows "sameInputs s (dynamicsResult e s)"
proof (cases e)
  case (TwoPointSpring rep)
  from ok have okr: "springDynamicsOK rep s"
    by (simp add: TwoPointSpring)
  then have m: "length (springMobilityForces (getDamping rep s) (getU (matterSubsystems s ! 0))
                  (mobilityForces s ! 0)) = length (mobilityForces s ! 0)"
    by (simp add: springDynamicsOK_def springMobilityForces_def split: if_splits)
  show ?thesis
    by (simp add: TwoPointSpring sameInputs_def springDynamicsResult_fields map_length_update
        length_springBodyForces m)
next
  case (UniformGravity rep)
  have "map length (rigidBodyForces (gravityResult g gh0 n s)) = map length (rigidBodyForces s)"
    for g gh0 n
    by (rule nth_equalityI)
       (simp_all add: gravityResult_fields gravityResult_nth length_gravityBodyForces)
  moreover
  have "map length (particleForces (gravityResult g gh0 n s)) = map length (particleForces s)"
    for g gh0 n
    by (rule nth_equalityI)
       (simp_all add: gravityResult_fields gravityResult_nth length_gravityParticleForces)
  ultimately show ?thesis
    by (simp add: UniformGravity sameInputs_def gravityDynamicsResult_def gravityResult_fields)
qed

lemma dynamics_ignore_dynamics_cache:
  "dynamicsOK e (s\<lparr>springDynamicsCache := c\<rparr>) = dynamicsOK e s"
  "accumulators (dynamicsResult e (s\<lparr>springDynamicsCache := c\<rparr>)) = accumulators (dynamicsResult e s)"
proof -
  have si: "sameInputs s (s\<lparr>springDynamicsCache := c\<rparr>)"
    by (simp add: sameInputs_def)
  show "dynamicsOK e (s\<lparr>springDynamicsCache := c\<rparr>) = dynamicsOK e s"
    by (rule dynamicsOK_sameInputs[OF si])
  show "accumulators (dynamicsResult e (s\<lparr>springDynamicsCache := c\<rparr>))
      = accumulators (dynamicsResult e s)"
  proof (cases e)
    case (TwoPointSpring rep)
    show ?thesis
      by (simp add: TwoPointSpring accumulators_def springDynamicsResult_fields
          getConfigurationCache_def getDamping_def getParameters_def)
  next
    case (UniformGravity rep)
    show ?thesis
      by (simp add: UniformGravity accumulators_def gravityDynamicsResult_def gravityResult_def
          isEnabled_def getGravityMagnitude_def getGravity_def getZeroHeight_def
          getGravityParameters_def getParameterCache_def)
  qed
qed

lemma contribution_eq:
  "contribution e s =
     (if dynamicsOK e s then accumulators (dynamicsResult e (zeroed s))
      else accumulators (zeroed s))"
proof (cases "dynamicsOK e s")
  case True
  then have "dynamicsOK e (zeroed s)"
    by (simp add: dynamicsOK_sameInputs[OF sameInputs_zeroed])
  then have "realizeDynamics e (zeroed s) = Inr (dynamicsResult e (zeroed s))"
    by (simp add: realizeDynamics_Inr_iff)
  then show ?thesis
    using True by (simp add: contribution_def)
next
  case False
  then have "\<not> dynamicsOK e (zeroed s)"
    by (simp add: dynamicsOK_sameInputs[OF sameInputs_zeroed])
  then obtain err where "realizeDynamics e (zeroed s) = Inl err"
    using realizeDynamics_fail by blast
  then show ?thesis
    using False by (simp add: contribution_def)
qed

lemma contribution_sameInputs:
  assumes a: "sameInputs s t"
  shows "contribution e t = contribution e s"
proof -
  have z: "zeroed t = (zeroed s)\<lparr>springDynamicsCache := springDynamicsCache t\<rparr>"
    by (rule zeroed_sameInputs[OF a])
  have acc: "accumulators (zeroed t) = accumulators (zeroed s)"
    by (simp add: z accumulators_def)
  show ?thesis
    by (simp add: contribution_eq dynamicsOK_sameInputs[OF a] acc)
       (simp add: z dynamics_ignore_dynamics_cache)
qed

section \<open>One hook adds its contribution\<close>

lemma map2_update_right:
  "i < length xs \<Longrightarrow> length ys = length xs \<Longrightarrow>
   map2 f xs (ys[i := y]) = (map2 f xs ys)[i := f (xs ! i) y]"
  by (rule nth_equalityI) (auto simp add: nth_list_update)

lemma map2_addBodyForce:
  "length z = length r \<Longrightarrow>
   map2 sv_add r (addBodyForce b F z) = addBodyForce b F (map2 sv_add r z)"
  unfolding addBodyForce_def
  by (cases "b < length r")
     (auto simp add: nth_list_update sv_add_assoc intro!: nth_equalityI)

lemma springBodyForces_over_zeros:
  "map2 sv_add r (springBodyForces rep cc (map (\<lambda>_. SpatialVec (Vec3 0 0 0) (Vec3 0 0 0)) r))
     = springBodyForces rep cc r"
  by (simp add: springBodyForces_def map2_addBodyForce length_addBodyForce map2_zeros sv_add_zero)

lemma springMobilityForces_over_zeros:
  "map2 (+) m (springMobilityForces d u (map (\<lambda>_. 0) m)) = springMobilityForces d u m"
  unfolding springMobilityForces_def
  by (auto simp add: map2_zeros intro!: nth_equalityI)

lemma gravityBodyForces_over_zeros:
  "map2 sv_add r (gravityBodyForces g matter (map (\<lambda>_. SpatialVec (Vec3 0 0 0) (Vec3 0 0 0)) r))
     = gravityBodyForces g matter r"
  unfolding gravityBodyForces_def
  by (auto simp add: sv_add_zero intro!: nth_equalityI)

lemma gravityParticleForces_over_zeros:
  "map2 vadd p (gravityParticleForces g matter (map (\<lambda>_. Vec3 0 0 0) p))
     = gravityParticleForces g matter p"
  unfolding gravityParticleForces_def
  by (auto simp add: vadd_zero intro!: nth_equalityI)

lemma zeroed_reads:
  "getConfigurationCache rep (zeroed s) = getConfigurationCache rep s"
  "getDamping rep (zeroed s) = getDamping rep s"
  "isEnabled grep (zeroed s) = isEnabled grep s"
  "getGravityMagnitude grep (zeroed s) = getGravityMagnitude grep s"
  "getGravity grep (zeroed s) = getGravity grep s"
  "getZeroHeight grep (zeroed s) = getZeroHeight grep s"
  by (simp_all add: zeroed_fields getConfigurationCache_def getDamping_def getParameters_def
      isEnabled_def getGravityMagnitude_def getGravity_def getZeroHeight_def
      getGravityParameters_def getParameterCache_def)

lemma spring_additive:
  assumes ok: "springDynamicsOK rep s"
  shows "accumulators (springDynamicsResult rep s)
       = acc_add (accumulators s) (accumulators (springDynamicsResult rep (zeroed s)))"
proof -
  from ok have ne: "rigidBodyForces s \<noteq> []" "mobilityForces s \<noteq> []"
    by (simp_all add: springDynamicsOK_def)
  show ?thesis
    using ne
    by (simp add: accumulators_def springDynamicsResult_fields zeroed_fields zeroed_reads
        map2_update_right map2_map2_zeros sv_add_zero vadd_zero
        springBodyForces_over_zeros springMobilityForces_over_zeros)
qed

lemma gravityResult_additive:
  "accumulators (gravityResult g gh0 n s)
     = acc_add (accumulators s) (accumulators (gravityResult g gh0 n (zeroed s)))"
proof -
  have r: "rigidBodyForces (gravityResult g gh0 n s)
         = map2 (map2 sv_add) (rigidBodyForces s) (rigidBodyForces (gravityResult g gh0 n (zeroed s)))"
    by (rule nth_equalityI)
       (simp_all add: gravityResult_fields gravityResult_nth zeroed_fields
          gravityBodyForces_over_zeros map2_zeros sv_add_zero)
  have p: "particleForces (gravityResult g gh0 n s)
         = map2 (map2 vadd) (particleForces s) (particleForces (gravityResult g gh0 n (zeroed s)))"
    by (rule nth_equalityI)
       (simp_all add: gravityResult_fields gravityResult_nth zeroed_fields
          gravityParticleForces_over_zeros map2_zeros vadd_zero)
  have m: "mobilityForces (gravityResult g gh0 n s)
         = map2 (map2 (+)) (mobilityForces s) (mobilityForces (gravityResult g gh0 n (zeroed s)))"
    by (simp add: gravityResult_fields zeroed_fields map2_map2_zeros[where f="(+)" and z="0::real"])
  show ?thesis
    unfolding accumulators_def acc_add.simps r[symmetric] p[symmetric] m[symmetric]
    by (simp add: gravityResult_fields zeroed_fields)
qed

lemma dynamics_additive:
  assumes ok: "dynamicsOK e s"
  shows "accumulators (dynamicsResult e s) = acc_add (accumulators s) (contribution e s)"
proof (cases e)
  case (TwoPointSpring rep)
  then show ?thesis
    using ok spring_additive[of rep s] by (simp add: contribution_eq)
next
  case (UniformGravity rep)
  show ?thesis
  proof (cases "\<not> isEnabled rep s \<or> getGravityMagnitude rep s = 0")
    case True
    then show ?thesis
      using ok
      by (simp add: UniformGravity contribution_eq gravityDynamicsResult_def zeroed_reads
          acc_add_zeroed)
  next
    case False
    have "accumulators (gravityDynamicsResult rep s)
        = acc_add (accumulators s) (accumulators (gravityDynamicsResult rep (zeroed s)))"
      using False
      by (simp only: gravityDynamicsResult_def zeroed_reads zeroed_fields if_False
          gravityResult_additive[symmetric])
    then show ?thesis
      using ok by (simp add: UniformGravity contribution_eq)
  qed
qed


section \<open>A pass over several elements\<close>

lemma pass_runs:
  assumes "sameInputs s t" and "\<forall>e\<in>set es. dynamicsOK e s"
  shows "\<exists>t'. realizeDynamicsPass es t = Inr t' \<and> sameInputs s t' \<and>
           accumulators t' = fold (\<lambda>e a. acc_add a (contribution e s)) es (accumulators t)"
  using assms
proof (induction es arbitrary: t)
  case Nil
  then show ?case by simp
next
  case (Cons e es)
  let ?t1 = "dynamicsResult e t"
  from Cons.prems have ok: "dynamicsOK e t"
    by (simp add: dynamicsOK_sameInputs)
  then have run: "realizeDynamics e t = Inr ?t1"
    by (simp add: realizeDynamics_Inr_iff)
  have si: "sameInputs s ?t1"
    using Cons.prems(1) sameInputs_dynamicsResult[OF ok] by (rule sameInputs_trans)
  have acc: "accumulators ?t1 = acc_add (accumulators t) (contribution e s)"
    using dynamics_additive[OF ok] contribution_sameInputs[OF Cons.prems(1)] by simp
  from Cons.IH[OF si] Cons.prems(2)
  obtain t' where "realizeDynamicsPass es ?t1 = Inr t'" "sameInputs s t'"
    "accumulators t' = fold (\<lambda>e a. acc_add a (contribution e s)) es (accumulators ?t1)"
    by auto
  then show ?case
    by (simp add: run bindE_simps acc)
qed

lemma pass_needs:
  "realizeDynamicsPass es s = Inr s' \<Longrightarrow> \<forall>e\<in>set es. dynamicsOK e s"
proof (induction es arbitrary: s)
  case Nil
  show ?case by simp
next
  case (Cons e es)
  from Cons.prems obtain s1 where run: "realizeDynamics e s = Inr s1"
    and rest: "realizeDynamicsPass es s1 = Inr s'"
    by (auto simp add: bindE_Inr_iff)
  from run have ok: "dynamicsOK e s" and s1: "s1 = dynamicsResult e s"
    by (simp_all add: realizeDynamics_Inr_iff)
  have si: "sameInputs s s1"
    unfolding s1 by (rule sameInputs_dynamicsResult[OF ok])
  from Cons.IH[OF rest] have "\<forall>e'\<in>set es. dynamicsOK e' s"
    by (simp add: dynamicsOK_sameInputs[OF si])
  with ok show ?case by simp
qed

lemma fold_contributions_permuted:
  assumes "mset es' = mset es"
  shows "fold (\<lambda>e a. acc_add a (contribution e s)) es'
       = fold (\<lambda>e a. acc_add a (contribution e s)) es"
  by (rule fold_multiset_equiv) (simp_all add: assms fun_eq_iff acc_add_right_commute)

lemma example_gravity_after_spring:
  "UniformGravity_realizeDynamics exampleGravity exampleAfterSpring = Inr exampleAfterBoth"
  unfolding gravity_dynamics_Inr_iff gravityDynamicsOK_def gravityDynamicsResult_def
  by (simp add: getGravity_def getZeroHeight_def isEnabled_def getGravityMagnitude_def
      getGravityParameters_def getParameterCache_def exampleGravityParameters_def
      gravityResult_def gravityBodyForces_def gravityParticleForces_def
      gravityEnergy_def bodyGravityForce_def bodyPotentialEnergy_def subsystemOK_def
      exampleAfterSpring_def exampleAfterBoth_def exampleState_def exampleMatter_def
      exampleMatter2_def stage_simps less_Suc_eq upt_2 numeral_2_eq_2)

lemma example_spring_after_gravity:
  "TwoPointSpring_realizeDynamics exampleSpring exampleAfterGravity = Inr exampleAfterBoth"
  by (simp add: spring_dynamics_Inr_iff springDynamicsOK_def springDynamicsResult_def
      springBodyForces_def springForce1_def springMobilityForces_def addBodyForce_def
      spatialForce_def updDynamicsCache_def getConfigurationCache_def getDamping_def
      getParameters_def exampleAfterGravity_def exampleAfterBoth_def
      exampleState_def exampleSpring_def exampleMatter_def exampleSpringParameters_def
      exampleConfigurationCache_def stage_simps)

text \<open>
  C1. Let a pass over the elements \<open>es\<close> return from the state \<open>s\<close>. Then its
  accumulators are those of \<open>s\<close> plus the standalone contributions of the elements
  (each what the element's hook leaves in zeroed accumulators). Moreover, from every state
  \<open>t\<close> with the same inputs and any accumulator contents, a pass over the same elements
  in any order \<open>es'\<close> returns too, with the accumulators of \<open>t\<close> plus those same
  contributions. For \<open>es = [e]\<close> this is one hook: it adds its contribution, which
  does not depend on what the accumulators held.
\<close>

theorem dynamics_pass_additive:
  assumes run: "realizeDynamicsPass es s = Inr s'"
    and perm: "mset es' = mset es"
    and inputs: "sameInputs s t"
  shows "accumulators s' = fold (\<lambda>e a. acc_add a (contribution e s)) es (accumulators s)
       \<and> (\<exists>t'. realizeDynamicsPass es' t = Inr t' \<and>
              accumulators t' = fold (\<lambda>e a. acc_add a (contribution e s)) es (accumulators t))"
proof -
  have ok: "\<forall>e\<in>set es. dynamicsOK e s"
    by (rule pass_needs[OF run])
  from pass_runs[OF sameInputs_refl ok] run
  have A: "accumulators s' = fold (\<lambda>e a. acc_add a (contribution e s)) es (accumulators s)"
    by auto
  have "set es' = set es"
    using perm by (rule mset_eq_setD)
  with ok have ok': "\<forall>e\<in>set es'. dynamicsOK e s"
    by simp
  from pass_runs[OF inputs ok']
  obtain t' where "realizeDynamicsPass es' t = Inr t'"
    "accumulators t' = fold (\<lambda>e a. acc_add a (contribution e s)) es' (accumulators t)"
    by auto
  then have B: "\<exists>t'. realizeDynamicsPass es' t = Inr t' \<and>
              accumulators t' = fold (\<lambda>e a. acc_add a (contribution e s)) es (accumulators t)"
    by (simp add: fold_contributions_permuted[OF perm])
  from A B show ?thesis ..
qed


theorem dynamics_pass_additive_witness:
  "realizeDynamicsPass [TwoPointSpring exampleSpring, UniformGravity exampleGravity] exampleState
     = Inr exampleAfterBoth
   \<and> mset [UniformGravity exampleGravity, TwoPointSpring exampleSpring]
       = mset [TwoPointSpring exampleSpring, UniformGravity exampleGravity]
   \<and> sameInputs exampleState exampleState
   \<and> realizeDynamicsPass [UniformGravity exampleGravity, TwoPointSpring exampleSpring] exampleState
     = Inr exampleAfterBoth
   \<and> accumulators exampleAfterBoth
       = acc_add (acc_add (accumulators exampleState)
                    (contribution (TwoPointSpring exampleSpring) exampleState))
           (contribution (UniformGravity exampleGravity) exampleState)"
proof -
  have run1: "realizeDynamicsPass [TwoPointSpring exampleSpring, UniformGravity exampleGravity]
                exampleState = Inr exampleAfterBoth"
    by (simp add: bindE_simps example_spring_dynamics example_gravity_after_spring)
  have run2: "realizeDynamicsPass [UniformGravity exampleGravity, TwoPointSpring exampleSpring]
                exampleState = Inr exampleAfterBoth"
    by (simp add: bindE_simps example_gravity_dynamics example_spring_after_gravity)
  have perm: "mset [UniformGravity exampleGravity, TwoPointSpring exampleSpring]
       = mset [TwoPointSpring exampleSpring, UniformGravity exampleGravity]"
    by simp
  have inputs: "sameInputs exampleState exampleState"
    by (simp add: sameInputs_def)
  show ?thesis
    using dynamics_pass_additive [OF run1 perm inputs] run1 run2 perm inputs by simp
qed

section \<open>Doubles: basic facts\<close>

lemma DBL_consts: "1 \<le> DBL_MAX" "0 < DBL_TRUE_MIN" "DBL_TRUE_MIN \<le> 1" "DBL_TRUE_MIN * DBL_MAX \<le> 1"
  by (simp_all add: DBL_MAX_def DBL_TRUE_MIN_def field_simps)

lemma fl_0: "fl 0 = Finite 0"
  using DBL_consts by (simp add: fl_def)


lemma dadd_NaN: "dadd x NaN = NaN" "dadd NaN x = NaN"
  by (cases x; simp)+

lemma dsub_NaN: "dsub x NaN = NaN" "dsub NaN x = NaN"
  by (simp_all add: dsub_def dadd_NaN)

lemma dmul_NaN: "dmul x NaN = NaN" "dmul NaN x = NaN"
  by (cases x; simp)+

lemma dsub_self: "dsub (Finite a) (Finite a) = Finite 0"
  by (simp add: dsub_def fl_0)

lemma signed_inf_times_zero: "dmul (signed_inf p) (Finite 0) = NaN"
  by (cases p) simp_all

lemma quotient_by_zero_times_zero: "dmul (ddiv q (Finite 0)) (Finite 0) = NaN"
  by (cases q) (simp_all add: dmul_NaN signed_inf_times_zero)

lemma cross_d_nanVec: "cross_d a nanVec = nanVec"
  by (cases a) (simp add: nanVec_def dmul_NaN dsub_NaN)

lemma vadd_d_nanVec: "vadd_d a nanVec = nanVec"
  by (cases a) (simp add: nanVec_def dadd_NaN)

lemma vsub_d_nanVec: "vsub_d a nanVec = nanVec"
  by (cases a) (simp add: nanVec_def dsub_NaN)

lemma sv_add_d_nan: "sv_add_d a (SpatialVec_d nanVec nanVec) = SpatialVec_d nanVec nanVec"
  by (cases a) (simp add: vadd_d_nanVec)

lemma sv_sub_d_nan: "sv_sub_d a (SpatialVec_d nanVec nanVec) = SpatialVec_d nanVec nanVec"
  by (cases a) (simp add: vsub_d_nanVec)

lemma spring_force_nan:
  "vscale_d (ddiv q (Finite 0)) zeroVec_d = nanVec"
  by (simp add: zeroVec_d_def nanVec_def quotient_by_zero_times_zero)

lemma vnorm_d_zero: "vnorm_d zeroVec_d = Finite 0"
  by (simp add: vnorm_d_def zeroVec_d_def fl_0)

lemma vsub_d_self:
  "vsub_d (Vec3_d (Finite a) (Finite b) (Finite c)) (Vec3_d (Finite a) (Finite b) (Finite c))
     = zeroVec_d"
  by (simp add: zeroVec_d_def dsub_self)

lemma spring_dynamics_d_ok:
  assumes ok: "springDynamicsOK_d rep s"
  shows "TwoPointSpring_realizeDynamics_d rep s =
    (let cc = getConfigurationCache_d rep s;
         f1 = vscale_d (ddiv (cc_fscalar_d cc) (cc_x_d cc)) (cc_v_G_d cc);
         rbf = rigidBodyForces_d s ! 0;
         rbf1 = rbf[nat (body1_d rep) := sv_add_d (rbf ! nat (body1_d rep))
                                 (SpatialVec_d (cross_d (cc_station1_G_d cc) f1) f1)];
         rbf2 = rbf1[nat (body2_d rep) := sv_sub_d (rbf1 ! nat (body2_d rep))
                                  (SpatialVec_d (cross_d (cc_station2_G_d cc) f1) f1)];
         mf = mobilityForces_d s ! 0;
         mf' = (if d_is_zero (getDamping_d rep s) then mf
                else map2 (\<lambda>m u. dsub m (dmul (getDamping_d rep s) u)) mf
                       (getU_d (matterSubsystems_d s ! 0)))
     in Inr ((updDynamicsCache_d rep \<lparr>dc_f1_G_d = f1\<rparr> s)
                 \<lparr>rigidBodyForces_d := (rigidBodyForces_d s)[0 := rbf2],
                  mobilityForces_d := (mobilityForces_d s)[0 := mf'],
                  potentialEnergy_d := dadd (potentialEnergy_d s) (cc_pe_d cc)\<rparr>))"
  using ok
  unfolding TwoPointSpring_realizeDynamics_d_def springDynamicsOK_d_def
  by (auto simp add: SimTK_STAGECHECK_GE_ALWAYS_def bindE_def element_at_def
      int_index_def vector_sub_scaled_d_def Let_def not_less split: if_splits)

lemma spring_dynamics_d_fail:
  "\<not> springDynamicsOK_d rep s \<Longrightarrow> \<exists>e. TwoPointSpring_realizeDynamics_d rep s = Inl e"
  unfolding TwoPointSpring_realizeDynamics_d_def springDynamicsOK_d_def
  by (auto simp add: SimTK_STAGECHECK_GE_ALWAYS_def bindE_def element_at_def
      int_index_def vector_sub_scaled_d_def Let_def not_less
      split: if_splits)

lemma fl_small:
  "fl 0 = Finite 0" "fl 1 = Finite 1" "fl 2 = Finite 2" "fl 4 = Finite 4" "fl 5 = Finite 5"
  "fl 15 = Finite 15" "fl (- 8) = Finite (- 8)" "fl (- 1) = Finite (- 1)"
  "fl (- 100) = Finite (- 100)" "fl 50 = Finite 50" "fl (- 50) = Finite (- 50)"
  "fl 60 = Finite 60" "fl 100 = Finite 100"
  by (simp_all add: fl_def DBL_MAX_def DBL_TRUE_MIN_def field_simps)

lemma example_coincident_configuration:
  "TwoPointSpring_realizeConfiguration_d exampleCoincidentSpring_d exampleState_d
     = Inr exampleCoincidentState_d"
  by (simp add: TwoPointSpring_realizeConfiguration_d_def SimTK_STAGECHECK_GE_ALWAYS_def
      bindE_def element_at_def Let_def getParameters_d_def exampleCoincidentState_d_def
      exampleCoincidentCache_d_def exampleState_d_def exampleCoincidentSpring_d_def
      exampleMatter_d_def zeroVec_d_def vnorm_d_def dsub_def fl_small stage_simps)

lemma example_coincident_dynamics:
  "TwoPointSpring_realizeDynamics_d exampleCoincidentSpring_d exampleCoincidentState_d
     = Inr exampleAfterCoincident_d"
  by (simp add: TwoPointSpring_realizeDynamics_d_def SimTK_STAGECHECK_GE_ALWAYS_def
      bindE_def element_at_def int_index_def vector_sub_scaled_d_def Let_def
      getConfigurationCache_d_def updConfigurationCache_d_def updDynamicsCache_d_def
      getDamping_d_def getParameters_d_def d_is_zero_def
      exampleAfterCoincident_d_def exampleCoincidentState_d_def
      exampleCoincidentCache_d_def exampleState_d_def exampleCoincidentSpring_d_def
      exampleMatter_d_def zeroVec_d_def nanVec_def dsub_def fl_small stage_simps)

section \<open>Coincident stations\<close>

text \<open>
  C4. Over doubles. When the ground positions of the two stations are the same finite
  point, \<^verbatim>\<open>realizeConfiguration\<close> (at stage Timed or later, in a system with a matter
  subsystem) returns with \<open>v = (0, 0, 0)\<close> and \<open>x = 0\<close> in the cache. On a state whose
  cache holds \<open>v = (0, 0, 0)\<close> and \<open>x = 0\<close>, whatever the other entries are:
  \<^verbatim>\<open>realizeDynamics\<close> returns exactly when its stage, size and index checks pass, none
  of which looks at \<open>x\<close>; and when it returns, the three components of the cached force
  are not-a-number, and so are all six components of the slots of body 1 and of body 2 in
  the rigid-body forces of subsystem 0, whatever they held before.
\<close>

theorem spring_coincident_stations_nan:
  fixes rep s0 s a b c
  defines "matter \<equiv> matterSubsystems_d s0 ! 0"
  defines "X1 \<equiv> getBodyConfiguration_d matter (body1_d rep)"
  defines "X2 \<equiv> getBodyConfiguration_d matter (body2_d rep)"
  defines "p1 \<equiv> vadd_d (X_T_d X1) (rot_apply_d (X_R_d X1) (station1_d rep))"
  defines "p2 \<equiv> vadd_d (X_T_d X2) (rot_apply_d (X_R_d X2) (station2_d rep))"
  defines "cc \<equiv> getConfigurationCache_d rep s"
  shows "(Timed \<le> getStage_d s0 \<and> matterSubsystems_d s0 \<noteq> []
            \<and> p1 = Vec3_d (Finite a) (Finite b) (Finite c) \<and> p2 = p1 \<longrightarrow>
          (\<exists>s1. TwoPointSpring_realizeConfiguration_d rep s0 = Inr s1
              \<and> cc_v_G_d (getConfigurationCache_d rep s1) = zeroVec_d
              \<and> cc_x_d (getConfigurationCache_d rep s1) = Finite 0))
       \<and> (cc_v_G_d cc = zeroVec_d \<and> cc_x_d cc = Finite 0 \<longrightarrow>
            ((\<exists>s'. TwoPointSpring_realizeDynamics_d rep s = Inr s') = springDynamicsOK_d rep s)
          \<and> (\<forall>s'. TwoPointSpring_realizeDynamics_d rep s = Inr s' \<longrightarrow>
                dc_f1_G_d (getDynamicsCache_d rep s') = nanVec
              \<and> rigidBodyForces_d s' ! 0 ! nat (body1_d rep) = SpatialVec_d nanVec nanVec
              \<and> rigidBodyForces_d s' ! 0 ! nat (body2_d rep) = SpatialVec_d nanVec nanVec))"
proof (intro conjI impI allI)
  assume h: "Timed \<le> getStage_d s0 \<and> matterSubsystems_d s0 \<noteq> []
            \<and> p1 = Vec3_d (Finite a) (Finite b) (Finite c) \<and> p2 = p1"
  then have v: "vsub_d p2 p1 = zeroVec_d"
    by (simp add: vsub_d_self del: vsub_d.simps)
  show "\<exists>s1. TwoPointSpring_realizeConfiguration_d rep s0 = Inr s1
              \<and> cc_v_G_d (getConfigurationCache_d rep s1) = zeroVec_d
              \<and> cc_x_d (getConfigurationCache_d rep s1) = Finite 0"
    using h v[unfolded p1_def p2_def X1_def X2_def matter_def]
    by (simp add: TwoPointSpring_realizeConfiguration_d_def SimTK_STAGECHECK_GE_ALWAYS_def
        bindE_def element_at_def Let_def not_less getConfigurationCache_d_def
        updConfigurationCache_d_def vnorm_d_zero)
next
  assume h: "cc_v_G_d cc = zeroVec_d \<and> cc_x_d cc = Finite 0"
  show "(\<exists>s'. TwoPointSpring_realizeDynamics_d rep s = Inr s') = springDynamicsOK_d rep s"
    using spring_dynamics_d_ok[of rep s] spring_dynamics_d_fail[of rep s]
    by (cases "springDynamicsOK_d rep s") (auto simp add: Let_def)
next
  fix s'
  assume h: "cc_v_G_d cc = zeroVec_d \<and> cc_x_d cc = Finite 0"
    and run: "TwoPointSpring_realizeDynamics_d rep s = Inr s'"
  have ok: "springDynamicsOK_d rep s"
    using run spring_dynamics_d_fail[of rep s] by (cases "springDynamicsOK_d rep s") auto
  then have b: "nat (body1_d rep) < length (rigidBodyForces_d s ! 0)"
      "nat (body2_d rep) < length (rigidBodyForces_d s ! 0)" "rigidBodyForces_d s \<noteq> []"
    by (auto simp add: springDynamicsOK_d_def)
  have f1: "vscale_d (ddiv (cc_fscalar_d cc) (cc_x_d cc)) (cc_v_G_d cc) = nanVec"
    using h by (simp add: spring_force_nan)
  have s': "s' = (updDynamicsCache_d rep \<lparr>dc_f1_G_d = nanVec\<rparr> s)
                 \<lparr>rigidBodyForces_d := (rigidBodyForces_d s)
                    [0 := (rigidBodyForces_d s ! 0)
                            [nat (body1_d rep) := SpatialVec_d nanVec nanVec,
                             nat (body2_d rep) := SpatialVec_d nanVec nanVec]],
                  mobilityForces_d := (mobilityForces_d s)
                    [0 := (if d_is_zero (getDamping_d rep s) then mobilityForces_d s ! 0
                           else map2 (\<lambda>m u. dsub m (dmul (getDamping_d rep s) u))
                                  (mobilityForces_d s ! 0) (getU_d (matterSubsystems_d s ! 0)))],
                  potentialEnergy_d := dadd (potentialEnergy_d s) (cc_pe_d cc)\<rparr>"
    using run
    unfolding spring_dynamics_d_ok[OF ok] Let_def cc_def[symmetric] f1
    by (simp add: cross_d_nanVec sv_add_d_nan sv_sub_d_nan)
  show "dc_f1_G_d (getDynamicsCache_d rep s') = nanVec"
    by (simp add: s' getDynamicsCache_d_def updDynamicsCache_d_def)
  show "rigidBodyForces_d s' ! 0 ! nat (body1_d rep) = SpatialVec_d nanVec nanVec"
    using b by (simp add: s' updDynamicsCache_d_def nth_list_update)
  show "rigidBodyForces_d s' ! 0 ! nat (body2_d rep) = SpatialVec_d nanVec nanVec"
    using b by (simp add: s' updDynamicsCache_d_def nth_list_update)
qed

theorem spring_coincident_stations_nan_witness:
  "TwoPointSpring_realizeConfiguration_d exampleCoincidentSpring_d exampleState_d
     = Inr exampleCoincidentState_d
   \<and> cc_x_d (getConfigurationCache_d exampleCoincidentSpring_d exampleState_d) = Finite 2
   \<and> cc_x_d (getConfigurationCache_d exampleCoincidentSpring_d exampleCoincidentState_d) = Finite 0
   \<and> cc_v_G_d (getConfigurationCache_d exampleCoincidentSpring_d exampleCoincidentState_d) = zeroVec_d
   \<and> springDynamicsOK_d exampleCoincidentSpring_d exampleCoincidentState_d
   \<and> TwoPointSpring_realizeDynamics_d exampleCoincidentSpring_d exampleCoincidentState_d
       = Inr exampleAfterCoincident_d
   \<and> dc_f1_G_d (getDynamicsCache_d exampleCoincidentSpring_d exampleAfterCoincident_d) = nanVec
   \<and> rigidBodyForces_d exampleAfterCoincident_d ! 0 ! 1 = SpatialVec_d nanVec nanVec"
proof -
  have x0: "cc_x_d (getConfigurationCache_d exampleCoincidentSpring_d exampleState_d) = Finite 2"
    by (simp add: getConfigurationCache_d_def exampleState_d_def)
  have c: "cc_v_G_d (getConfigurationCache_d exampleCoincidentSpring_d exampleCoincidentState_d)
             = zeroVec_d
           \<and> cc_x_d (getConfigurationCache_d exampleCoincidentSpring_d exampleCoincidentState_d)
             = Finite 0"
    by (simp add: getConfigurationCache_d_def updConfigurationCache_d_def
        exampleCoincidentState_d_def exampleCoincidentCache_d_def)
  have ok: "springDynamicsOK_d exampleCoincidentSpring_d exampleCoincidentState_d"
    by (simp add: springDynamicsOK_d_def exampleCoincidentState_d_def updConfigurationCache_d_def
        exampleState_d_def exampleCoincidentSpring_d_def exampleMatter_d_def getDamping_d_def
        getParameters_d_def d_is_zero_def stage_simps)
  have b2: "nat (body2_d exampleCoincidentSpring_d) = 1"
    by (simp add: exampleCoincidentSpring_d_def)
  have h: "Timed \<le> getStage_d exampleState_d \<and> matterSubsystems_d exampleState_d \<noteq> []
      \<and> vadd_d (X_T_d (getBodyConfiguration_d (matterSubsystems_d exampleState_d ! 0)
                        (body1_d exampleCoincidentSpring_d)))
           (rot_apply_d (X_R_d (getBodyConfiguration_d (matterSubsystems_d exampleState_d ! 0)
                        (body1_d exampleCoincidentSpring_d))) (station1_d exampleCoincidentSpring_d))
         = Vec3_d (Finite 1) (Finite 0) (Finite 2)
      \<and> vadd_d (X_T_d (getBodyConfiguration_d (matterSubsystems_d exampleState_d ! 0)
                        (body2_d exampleCoincidentSpring_d)))
           (rot_apply_d (X_R_d (getBodyConfiguration_d (matterSubsystems_d exampleState_d ! 0)
                        (body2_d exampleCoincidentSpring_d))) (station2_d exampleCoincidentSpring_d))
         = vadd_d (X_T_d (getBodyConfiguration_d (matterSubsystems_d exampleState_d ! 0)
                        (body1_d exampleCoincidentSpring_d)))
           (rot_apply_d (X_R_d (getBodyConfiguration_d (matterSubsystems_d exampleState_d ! 0)
                        (body1_d exampleCoincidentSpring_d))) (station1_d exampleCoincidentSpring_d))"
    by (simp add: exampleState_d_def exampleCoincidentSpring_d_def exampleMatter_d_def
        fl_small stage_simps)
  note inst = spring_coincident_stations_nan [where rep = exampleCoincidentSpring_d and s = exampleCoincidentState_d
      and ?s0.0 = exampleState_d and a = 1 and b = 0 and c = 2]
  note part1 = inst [THEN conjunct1, rule_format, OF h]
  note part2 = inst [THEN conjunct2, rule_format, OF c, THEN conjunct2, rule_format,
      OF example_coincident_dynamics]
  show ?thesis
    using part1 part2 example_coincident_configuration example_coincident_dynamics x0 c ok
    by (simp add: b2)
qed

section \<open>The cached gravity direction\<close>










end
